theory Spec2Isabelle
  imports Main
begin

section \<open>Python values, exceptions and dictionaries\<close>

text \<open>
  The values that travel through configurations, call envelopes and compute requests.
  A tuple and a list are kept apart because \<open>Send.repeat\<close> nests the caller's argument
  tuple inside a list.
\<close>

datatype pyval =
    PNone
  | PBool bool
  | PInt int
  | PStr string
  | PList "pyval list"
  | PTuple "pyval list"
  | PDict "(string \<times> pyval) list"

text \<open>
  A Python \<open>dict\<close> with string keys keeps insertion order, and \<open>str\<close> of a dict shows
  that order, so a dict is an association list without repeated keys.
\<close>

type_synonym pydict = "(string \<times> pyval) list"

text \<open>An exception object raised by code outside the modelled files: its class and message.\<close>

datatype exn = Exn (exn_type: string) (exn_msg: string)

text \<open>
  The exceptions the modelled functions raise themselves are one constructor each, named
  after the Python class; \<open>Raised\<close> carries an exception object that was produced elsewhere
  (by a collaborator, or on the remote node) and is propagated or re-raised unchanged.
  \<open>Dangling\<close> is not a Python exception: it marks an address of the object store below
  that holds no object of the expected kind, which a Python reference never does.
\<close>

datatype error =
    ValueError string
  | TypeError string
  | KeyError string
  | IndexError string
  | RuntimeError string
  | NotImplementedError string
  | Raised exn
  | Dangling nat

text \<open>An integer inside an f-string prints in decimal.\<close>

definition digit_char :: "nat \<Rightarrow> char" where
  "digit_char d = ''0123456789'' ! d"

function str_nat :: "nat \<Rightarrow> string" where
  "str_nat n = (if n < 10 then [digit_char n] else str_nat (n div 10) @ [digit_char (n mod 10)])"
  by pat_completeness auto
termination
  by (relation "measure id") auto

declare str_nat.simps [simp del]

definition str_int :: "int \<Rightarrow> string" where
  "str_int i = (if i < 0 then CHR ''-'' # str_nat (nat (- i)) else str_nat (nat i))"

text \<open>The messages of the \<open>TypeError\<close>s Python raises on \<open>None\<close>.\<close>

definition not_iterable :: string where
  "not_iterable = [CHR 0x27] @ ''NoneType'' @ [CHR 0x27] @ '' object is not iterable''"

definition no_item_assignment :: string where
  "no_item_assignment =
     [CHR 0x27] @ ''NoneType'' @ [CHR 0x27] @ '' object does not support item assignment''"

fun dict_get :: "pydict \<Rightarrow> string \<Rightarrow> pyval option" where
  "dict_get [] k = None"
| "dict_get ((k', v) # d) k = (if k' = k then Some v else dict_get d k)"

text \<open>\<open>d[k] = v\<close>: an existing key keeps its position, a new key goes last.\<close>

fun dict_set :: "pydict \<Rightarrow> string \<Rightarrow> pyval \<Rightarrow> pydict" where
  "dict_set [] k v = [(k, v)]"
| "dict_set ((k', v') # d) k v = (if k' = k then (k, v) # d else (k', v') # dict_set d k v)"

text \<open>\<open>d.update(other)\<close>: the items of \<open>other\<close> are stored one after the other.\<close>

fun dict_update :: "pydict \<Rightarrow> pydict \<Rightarrow> pydict" where
  "dict_update d [] = d"
| "dict_update d ((k, v) # other) = dict_update (dict_set d k v) other"

fun dict_remove :: "pydict \<Rightarrow> string \<Rightarrow> pydict" where
  "dict_remove [] k = []"
| "dict_remove ((k', v) # d) k = (if k' = k then d else (k', v) # dict_remove d k)"

text \<open>\<open>d.pop(k)\<close> with no default raises \<open>KeyError\<close> on a missing key.\<close>

definition dict_pop :: "pydict \<Rightarrow> string \<Rightarrow> error + pydict" where
  "dict_pop d k = (case dict_get d k of None \<Rightarrow> Inl (KeyError k) | Some v \<Rightarrow> Inr (dict_remove d k))"

section \<open>Packages, requirements and environments\<close>

text \<open>
  A package descriptor, as far as \<open>env.py\<close> looks into it: whether its install target is a
  folder, and its install method.
\<close>

datatype install_target = Target_str string | Target_folder string

record package =
  install_target :: install_target
  install_method :: string

text \<open>
  One entry of a requirement list is a string, a \<open>Package\<close>, or some other object; the
  type annotations of \<open>Env.__init__\<close> admit a \<open>pathlib.Path\<close> as the working directory,
  which is neither a string nor a package.
\<close>

datatype req = RStr string | RPkg package | RPath string

datatype env_vars = Vars_dict pydict | Vars_file string

datatype secret = Secret_name string | Secret_obj string

text \<open>
  The attributes of an \<open>Env\<close> object. \<open>p_reqs\<close> is the attribute \<open>_reqs\<close>. The compute
  request is of type \<open>'c\<close>: a dictionary where the environment is looked at as a value,
  the address of a dictionary where objects live in a store.
\<close>

record 'c env =
  name :: "string option"
  p_reqs :: "req list option"
  setup_cmds :: "string list option"
  env_vars :: env_vars
  working_dir :: "req option"
  secrets :: "secret list option"
  compute :: "'c option"

text \<open>Python truthiness of the optional attributes tested in \<open>env.py\<close>.\<close>

fun truthy_str :: "string option \<Rightarrow> bool" where
  "truthy_str None = False"
| "truthy_str (Some s) = (s \<noteq> [])"

fun truthy_req :: "req option \<Rightarrow> bool" where
  "truthy_req None = False"
| "truthy_req (Some (RStr s)) = (s \<noteq> [])"
| "truthy_req (Some (RPkg p)) = True"
| "truthy_req (Some (RPath p)) = True"

fun truthy_list :: "'a list option \<Rightarrow> bool" where
  "truthy_list None = False"
| "truthy_list (Some xs) = (xs \<noteq> [])"

text \<open>
  \<open>env_name\<close> is \<open>self.name or "base"\<close>: the left operand itself when it is truthy, the
  string \<open>"base"\<close> otherwise. The result is kept optional, as the left operand is.
\<close>

definition env_name :: "'c env \<Rightarrow> string option" where
  "env_name e = (if truthy_str (name e) then name e else Some ''base'')"

text \<open>
  The property \<open>reqs\<close>:
  \<open>(self._reqs or []) + ([self.working_dir] if self.working_dir else [])\<close>.
\<close>

definition reqs :: "'c env \<Rightarrow> req list" where
  "reqs e =
     (if truthy_list (p_reqs e) then the (p_reqs e) else []) @
     (if truthy_req (working_dir e) then [the (working_dir e)] else [])"

section \<open>Clusters and collaborators\<close>

text \<open>
  What \<open>env.py\<close> and \<open>utils.py\<close> read from a \<open>Cluster\<close>: its name, the addresses of
  its nodes, whether the code is running on it, and the name and run-command prefix of
  its default environment.
\<close>

record cluster =
  cluster_name :: string
  ips :: "string list"
  on_this_cluster :: bool
  default_env_name :: "string option"
  default_env_run_cmd :: string

datatype system = Sys_str string | Sys_cluster cluster

text \<open>The methods \<open>Env.to\<close> invokes on the cluster through \<open>system.call\<close>.\<close>

datatype remote_call =
    Call_set_env_vars pydict
  | Call_install bool
  | Call_install_reqs "req list"
  | Call_run_setup_cmds "string list option"

text \<open>
  The code outside \<open>env.py\<close> and \<open>utils.py\<close> that the environment calls is a parameter of
  the model: the \<open>Resource\<close> base class (\<open>config\<close>, \<open>save_attrs_to_config\<close>,
  \<open>_resource_string_for_subconfig\<close>), the builtins \<open>str\<close> and \<open>hash\<close> on a configuration,
  \<open>Package\<close> (\<open>from_string\<close>, \<open>to\<close>, \<open>_install\<close>), the dotenv reader, the local shell and
  the SSH runner, \<open>_get_cluster_from\<close>, the cluster's \<open>put_resource\<close> and \<open>call\<close>, and
  \<open>Secret\<close> (\<open>from_name\<close>, \<open>to\<close>). A collaborator that can raise returns \<open>Inl\<close> of the
  exception object. \<open>save_attrs_to_config\<close> receives the listed attribute names paired with
  the values \<open>self\<close> has for them. Collaborators may read the objects they are handed; they
  do not write to the caller's objects.
\<close>

record world =
  base_config :: "pydict env \<Rightarrow> pydict"
  save_attrs_to_config :: "pydict \<Rightarrow> (string \<times> pyval) list \<Rightarrow> pydict"
  resource_string_for_subconfig :: "req option \<Rightarrow> exn + pyval"
  py_str :: "pydict \<Rightarrow> string"
  py_hash :: "string \<Rightarrow> int"
  from_string :: "string \<Rightarrow> exn + package"
  pkg_to :: "package \<Rightarrow> system \<Rightarrow> string option \<Rightarrow> bool \<Rightarrow> exn + package"
  pkg_install :: "package \<Rightarrow> pydict env \<Rightarrow> cluster option \<Rightarrow> exn + unit"
  env_vars_from_file :: "string \<Rightarrow> exn + pydict"
  run_with_logs :: "string \<Rightarrow> exn + int \<times> string"
  run_commands_with_ssh :: "cluster \<Rightarrow> string \<Rightarrow> pydict option \<Rightarrow> exn + int \<times> string"
  get_cluster_from :: "system \<Rightarrow> system"
  put_resource :: "cluster \<Rightarrow> pydict env \<Rightarrow> exn + string"
  cluster_call :: "cluster \<Rightarrow> string option \<Rightarrow> remote_call \<Rightarrow> exn + unit"
  secret_from_name :: "string \<Rightarrow> exn + secret"
  secret_to :: "secret \<Rightarrow> system \<Rightarrow> pydict env \<Rightarrow> exn + secret"

text \<open>Propagating a collaborator's exception.\<close>

definition lift :: "exn + 'a \<Rightarrow> error + 'a" where
  "lift r = (case r of Inl x \<Rightarrow> Inl (Raised x) | Inr v \<Rightarrow> Inr v)"

section \<open>Serialized configuration\<close>

fun opt_str_val :: "string option \<Rightarrow> pyval" where
  "opt_str_val None = PNone"
| "opt_str_val (Some s) = PStr s"

fun setup_cmds_val :: "string list option \<Rightarrow> pyval" where
  "setup_cmds_val None = PNone"
| "setup_cmds_val (Some cs) = PList (map PStr cs)"

fun env_vars_val :: "env_vars \<Rightarrow> pyval" where
  "env_vars_val (Vars_dict d) = PDict d"
| "env_vars_val (Vars_file f) = PStr f"

fun compute_val :: "pydict option \<Rightarrow> pyval" where
  "compute_val None = PNone"
| "compute_val (Some d) = PDict d"

text \<open>
  The list comprehension in \<open>Env.config\<close>: \<open>_resource_string_for_subconfig\<close> for each
  requirement in turn; the first exception ends it.
\<close>

fun subconfig_strings :: "world \<Rightarrow> req list \<Rightarrow> error + pyval list" where
  "subconfig_strings W [] = Inr []"
| "subconfig_strings W (r # rs) =
     (case resource_string_for_subconfig W (Some r) of
        Inl x \<Rightarrow> Inl (Raised x)
      | Inr v \<Rightarrow>
          (case subconfig_strings W rs of
             Inl err \<Rightarrow> Inl err
           | Inr vs \<Rightarrow> Inr (v # vs)))"

text \<open>
  \<open>Env.config\<close>: the base class's configuration, then the attributes \<open>setup_cmds\<close>,
  \<open>env_vars\<close>, \<open>env_name\<close> and \<open>compute\<close> handed to \<open>save_attrs_to_config\<close>, then the keys
  \<open>reqs\<close> and \<open>working_dir\<close> stored by \<open>update\<close>. Iterating \<open>self._reqs\<close> raises
  \<open>TypeError\<close> when it is \<open>None\<close>, and \<open>_resource_string_for_subconfig\<close> may raise.
\<close>

definition config :: "world \<Rightarrow> pydict env \<Rightarrow> error + pydict" where
  "config W e =
     (let cfg = save_attrs_to_config W (base_config W e)
                  [(''setup_cmds'', setup_cmds_val (setup_cmds e)),
                   (''env_vars'', env_vars_val (env_vars e)),
                   (''env_name'', opt_str_val (env_name e)),
                   (''compute'', compute_val (compute e))]
      in case p_reqs e of
           None \<Rightarrow> Inl (TypeError not_iterable)
         | Some rs \<Rightarrow>
             (case subconfig_strings W rs of
                Inl err \<Rightarrow> Inl err
              | Inr vs \<Rightarrow>
                  (case resource_string_for_subconfig W (working_dir e) of
                     Inl x \<Rightarrow> Inl (Raised x)
                   | Inr wv \<Rightarrow>
                       Inr (dict_update cfg [(''reqs'', PList vs), (''working_dir'', wv)]))))"

text \<open>
  The first three statements of \<open>Env.install\<close>: the configuration, \<open>pop("name")\<close>, and
  \<open>hash(str(env_config))\<close>.
\<close>

definition install_hash :: "world \<Rightarrow> pydict env \<Rightarrow> error + int" where
  "install_hash W e =
     (case config W e of
        Inl err \<Rightarrow> Inl err
      | Inr cfg \<Rightarrow>
          (case dict_pop cfg ''name'' of
             Inl err \<Rightarrow> Inl err
           | Inr cfg' \<Rightarrow> Inr (py_hash W (py_str W cfg'))))"

section \<open>Installing an environment\<close>

text \<open>
  What a call does to the machine is recorded as a trace: each invocation of a package's
  installer, each command handed to the local shell, each command sent over SSH.
\<close>

datatype event =
    Ev_install package
  | Ev_shell string
  | Ev_ssh string string

text \<open>
  The state of the node process that \<open>install\<close> reads and writes:
  \<open>obj_store.installed_envs\<close>, from hash to the environment's name, and the trace.
\<close>

record node =
  installed_envs :: "int \<rightharpoonup> string option"
  trace :: "event list"

text \<open>\<open>_process_env_vars\<close>: a string names a dotenv file to read, a dict is returned as is.\<close>

definition process_env_vars :: "world \<Rightarrow> env_vars \<Rightarrow> error + pydict" where
  "process_env_vars W ev =
     (case ev of
        Vars_file f \<Rightarrow> lift (env_vars_from_file W f)
      | Vars_dict d \<Rightarrow> Inr d)"

text \<open>
  \<open>run_setup_command\<close>: without a cluster the command goes to the local shell; on the
  cluster itself it goes to the local shell behind the default environment's prefix;
  otherwise it is sent over SSH.
\<close>

definition run_setup_command ::
  "world \<Rightarrow> string \<Rightarrow> cluster option \<Rightarrow> pydict option \<Rightarrow> event list
     \<Rightarrow> (error + int \<times> string) \<times> event list" where
  "run_setup_command W cmd cl vars tr =
     (case cl of
        None \<Rightarrow> (lift (run_with_logs W cmd), tr @ [Ev_shell cmd])
      | Some c \<Rightarrow>
          if on_this_cluster c then
            (let cmd' = (if default_env_run_cmd c \<noteq> [] then default_env_run_cmd c @ '' '' @ cmd
                         else cmd)
             in (lift (run_with_logs W cmd'), tr @ [Ev_shell cmd']))
          else (lift (run_commands_with_ssh W c cmd vars), tr @ [Ev_ssh (cluster_name c) cmd]))"

text \<open>The property \<open>_run_cmd\<close> of \<open>Env\<close> is the empty string.\<close>

definition run_cmd :: "'c env \<Rightarrow> string" where
  "run_cmd e = []"

text \<open>
  The body of the loop of \<open>_install_reqs\<close> up to the installer: a string is parsed, and
  sent to the cluster when its method is \<open>reqs\<close> or \<open>local\<close> and a cluster is given; a
  package is taken as it is; anything else raises \<open>ValueError\<close>.
\<close>

definition resolve_package :: "world \<Rightarrow> cluster option \<Rightarrow> req \<Rightarrow> error + package" where
  "resolve_package W cl r =
     (case r of
        RStr s \<Rightarrow>
          (case from_string W s of
             Inl x \<Rightarrow> Inl (Raised x)
           | Inr pkg \<Rightarrow>
               (case cl of
                  None \<Rightarrow> Inr pkg
                | Some c \<Rightarrow>
                    if install_method pkg = ''reqs'' \<or> install_method pkg = ''local''
                    then lift (pkg_to W pkg (Sys_cluster c) None False)
                    else Inr pkg))
      | RPkg p \<Rightarrow> Inr p
      | RPath p \<Rightarrow> Inl (ValueError (''package '' @ p @ '' not recognized'')))"

text \<open>The loop of \<open>_install_reqs\<close>: the first exception ends it.\<close>

fun install_packages ::
  "world \<Rightarrow> pydict env \<Rightarrow> cluster option \<Rightarrow> req list \<Rightarrow> event list
     \<Rightarrow> (error + unit) \<times> event list" where
  "install_packages W e cl [] tr = (Inr (), tr)"
| "install_packages W e cl (r # rs) tr =
     (case resolve_package W cl r of
        Inl err \<Rightarrow> (Inl err, tr)
      | Inr pkg \<Rightarrow>
          (case pkg_install W pkg e cl of
             Inl x \<Rightarrow> (Inl (Raised x), tr @ [Ev_install pkg])
           | Inr u \<Rightarrow> install_packages W e cl rs (tr @ [Ev_install pkg])))"

text \<open>\<open>_install_reqs\<close>: \<open>reqs = reqs or self.reqs\<close>, then the loop.\<close>

definition install_reqs ::
  "world \<Rightarrow> pydict env \<Rightarrow> cluster option \<Rightarrow> req list option \<Rightarrow> event list
     \<Rightarrow> (error + unit) \<times> event list" where
  "install_reqs W e cl rs tr =
     install_packages W e cl (if truthy_list rs then the rs else reqs e) tr"

text \<open>
  The loop of \<open>_run_setup_cmds\<close>. The arguments of \<open>run_setup_command\<close> are evaluated
  before the call, so \<open>_process_env_vars\<close> runs, and may raise, once per command. The
  command's status and output are dropped.
\<close>

fun run_commands ::
  "world \<Rightarrow> pydict env \<Rightarrow> cluster option \<Rightarrow> string list \<Rightarrow> event list
     \<Rightarrow> (error + unit) \<times> event list" where
  "run_commands W e cl [] tr = (Inr (), tr)"
| "run_commands W e cl (cmd # cmds) tr =
     (let cmd' = (if run_cmd e \<noteq> [] then run_cmd e @ '' '' @ cmd else cmd)
      in case process_env_vars W (env_vars e) of
           Inl err \<Rightarrow> (Inl err, tr)
         | Inr vars \<Rightarrow>
             (case run_setup_command W cmd' cl (Some vars) tr of
                (Inl err, tr') \<Rightarrow> (Inl err, tr')
              | (Inr out, tr') \<Rightarrow> run_commands W e cl cmds tr'))"

text \<open>\<open>_run_setup_cmds\<close>: \<open>setup_cmds = setup_cmds or self.setup_cmds\<close>, then the loop.\<close>

definition run_setup_cmds ::
  "world \<Rightarrow> pydict env \<Rightarrow> cluster option \<Rightarrow> string list option \<Rightarrow> event list
     \<Rightarrow> (error + unit) \<times> event list" where
  "run_setup_cmds W e cl cmds tr =
     (let cs = (if truthy_list cmds then cmds else setup_cmds e)
      in if \<not> truthy_list cs then (Inr (), tr) else run_commands W e cl (the cs) tr)"

text \<open>
  \<open>Env.install\<close>. The hash is stored in \<open>installed_envs\<close> before the packages are
  installed; an exception from \<open>_install_reqs\<close> or \<open>_run_setup_cmds\<close> leaves the state as
  it is at that point.
\<close>

definition install ::
  "world \<Rightarrow> pydict env \<Rightarrow> bool \<Rightarrow> cluster option \<Rightarrow> node \<Rightarrow> (error + unit) \<times> node" where
  "install W e force cl nd =
     (case install_hash W e of
        Inl err \<Rightarrow> (Inl err, nd)
      | Inr h \<Rightarrow>
          if installed_envs nd h \<noteq> None \<and> \<not> force then (Inr (), nd)
          else
            (let nd1 = nd\<lparr>installed_envs := (installed_envs nd)(h \<mapsto> name e)\<rparr>
             in case install_reqs W e cl None (trace nd1) of
                  (Inl err, tr) \<Rightarrow> (Inl err, nd1\<lparr>trace := tr\<rparr>)
                | (Inr u, tr) \<Rightarrow>
                    (case run_setup_cmds W e cl None tr of
                       (res, tr') \<Rightarrow> (res, nd1\<lparr>trace := tr'\<rparr>))))"

section \<open>Sending an environment to a system\<close>

text \<open>
  \<open>Env.to\<close> copies the environment and then writes to the copy, in one place through a
  reference: \<open>new_env.compute["node_idx"] = node_idx\<close> stores into the dictionary that the
  attribute \<open>compute\<close> refers to. Whether the caller's environment is left alone depends on
  which objects are shared, so environments and compute dictionaries live in a store: a
  list of objects, an address being a position in it. A new object goes to the end. The
  requirement and secret lists are only ever replaced as a whole (by attribute
  assignment), never written into, and are kept as values inside the environment object.
\<close>

datatype obj = Obj_env "nat env" | Obj_dict pydict

type_synonym store = "obj list"

definition env_at :: "store \<Rightarrow> nat \<Rightarrow> nat env option" where
  "env_at h a =
     (if a < length h then (case h ! a of Obj_env e \<Rightarrow> Some e | Obj_dict d \<Rightarrow> None) else None)"

definition dict_at :: "store \<Rightarrow> nat \<Rightarrow> pydict option" where
  "dict_at h a =
     (if a < length h then (case h ! a of Obj_env e \<Rightarrow> None | Obj_dict d \<Rightarrow> Some d) else None)"

text \<open>An environment as a collaborator sees it: the compute reference followed.\<close>

definition snapshot :: "store \<Rightarrow> nat env \<Rightarrow> pydict env" where
  "snapshot h e =
     \<lparr>name = name e, p_reqs = p_reqs e, setup_cmds = setup_cmds e, env_vars = env_vars e,
      working_dir = working_dir e, secrets = secrets e,
      compute = (case compute e of None \<Rightarrow> None | Some d \<Rightarrow> dict_at h d)\<rparr>"

text \<open>
  \<open>copy.deepcopy(self)\<close>: a new environment object whose compute dictionary, when there
  is one, is a new dictionary with the same items.
\<close>

definition deepcopy :: "store \<Rightarrow> nat \<Rightarrow> error + nat \<times> store" where
  "deepcopy h a =
     (case env_at h a of
        None \<Rightarrow> Inl (Dangling a)
      | Some e \<Rightarrow>
          (case compute e of
             None \<Rightarrow> Inr (length h, h @ [Obj_env e])
           | Some d \<Rightarrow>
               (case dict_at h d of
                  None \<Rightarrow> Inl (Dangling d)
                | Some m \<Rightarrow>
                    Inr (Suc (length h), h @ [Obj_dict m, Obj_env (e\<lparr>compute := Some (length h)\<rparr>)]))))"

fun is_folder :: "install_target \<Rightarrow> bool" where
  "is_folder (Target_folder f) = True"
| "is_folder (Target_str s) = False"

text \<open>
  The body of the loop of \<open>_reqs_to\<close>: a string that parses to a package with a folder
  target is replaced by that package; a package with a folder target is sent to the
  system, with \<open>mount\<close> only when the system is a cluster.
\<close>

definition rebase_req ::
  "world \<Rightarrow> system \<Rightarrow> string option \<Rightarrow> bool \<Rightarrow> req \<Rightarrow> error + req" where
  "rebase_req W sys path mount r =
     (case (case r of
              RStr s \<Rightarrow>
                (case from_string W s of
                   Inl x \<Rightarrow> Inl (Raised x)
                 | Inr new_req \<Rightarrow>
                     Inr (if is_folder (install_target new_req) then RPkg new_req else r))
            | RPkg p \<Rightarrow> Inr r
            | RPath p \<Rightarrow> Inr r) of
        Inl err \<Rightarrow> Inl err
      | Inr r1 \<Rightarrow>
          (case r1 of
             RPkg p \<Rightarrow>
               if is_folder (install_target p)
               then (case pkg_to W p sys path
                            (case sys of Sys_cluster c \<Rightarrow> mount | Sys_str n \<Rightarrow> False) of
                       Inl x \<Rightarrow> Inl (Raised x)
                     | Inr p' \<Rightarrow> Inr (RPkg p'))
               else Inr r1
           | RStr s \<Rightarrow> Inr r1
           | RPath q \<Rightarrow> Inr r1))"

fun rebase_reqs ::
  "world \<Rightarrow> system \<Rightarrow> string option \<Rightarrow> bool \<Rightarrow> req list \<Rightarrow> error + req list" where
  "rebase_reqs W sys path mount [] = Inr []"
| "rebase_reqs W sys path mount (r # rs) =
     (case rebase_req W sys path mount r of
        Inl err \<Rightarrow> Inl err
      | Inr r' \<Rightarrow>
          (case rebase_reqs W sys path mount rs of
             Inl err \<Rightarrow> Inl err
           | Inr rs' \<Rightarrow> Inr (r' # rs')))"

text \<open>
  \<open>_reqs_to\<close>: the rebased \<open>self.reqs\<close>, split again into the requirements and the working
  directory when there is one. \<open>new_reqs[-1]\<close> on an empty list raises \<open>IndexError\<close>.
\<close>

definition reqs_to ::
  "world \<Rightarrow> 'c env \<Rightarrow> system \<Rightarrow> string option \<Rightarrow> bool \<Rightarrow> error + req list \<times> req option" where
  "reqs_to W e sys path mount =
     (case rebase_reqs W sys path mount (reqs e) of
        Inl err \<Rightarrow> Inl err
      | Inr new_reqs \<Rightarrow>
          if truthy_req (working_dir e)
          then (case new_reqs of
                  [] \<Rightarrow> Inl (IndexError ''list index out of range'')
                | r # rs \<Rightarrow> Inr (butlast new_reqs, Some (last new_reqs)))
          else Inr (new_reqs, None))"

text \<open>
  What the specification asks of the copy's requirements, one requirement at a time: a
  requirement that is, or as a string parses to, a package with a folder as its install
  target is replaced by what \<open>Package.to\<close> returns for the target system (uploaded or
  mounted there, \<open>mount\<close> being passed to clusters only); any other requirement is kept
  as it is.
\<close>

definition sent_to ::
  "world \<Rightarrow> system \<Rightarrow> string option \<Rightarrow> bool \<Rightarrow> package \<Rightarrow> req \<Rightarrow> bool" where
  "sent_to W sys path mount p r' =
     (case pkg_to W p sys path (case sys of Sys_cluster c \<Rightarrow> mount | Sys_str n \<Rightarrow> False) of
        Inl x \<Rightarrow> False
      | Inr p' \<Rightarrow> r' = RPkg p')"

definition bound_to ::
  "world \<Rightarrow> system \<Rightarrow> string option \<Rightarrow> bool \<Rightarrow> req \<Rightarrow> req \<Rightarrow> bool" where
  "bound_to W sys path mount r r' =
     (case r of
        RStr s \<Rightarrow>
          (case from_string W s of
             Inl x \<Rightarrow> False
           | Inr q \<Rightarrow>
               if is_folder (install_target q) then sent_to W sys path mount q r' else r' = r)
      | RPkg p \<Rightarrow>
          if is_folder (install_target p) then sent_to W sys path mount p r' else r' = r
      | RPath q \<Rightarrow> r' = r)"

text \<open>
  \<open>_secrets_to\<close>: a name is loaded, and every secret is sent to the system together with
  \<open>self\<close>. Iterating \<open>self.secrets\<close> raises \<open>TypeError\<close> when it is \<open>None\<close>.
\<close>

fun send_secrets :: "world \<Rightarrow> pydict env \<Rightarrow> system \<Rightarrow> secret list \<Rightarrow> error + secret list" where
  "send_secrets W e sys [] = Inr []"
| "send_secrets W e sys (s # ss) =
     (case (case s of
              Secret_name n \<Rightarrow> lift (secret_from_name W n)
            | Secret_obj n \<Rightarrow> Inr s) of
        Inl err \<Rightarrow> Inl err
      | Inr s1 \<Rightarrow>
          (case secret_to W s1 sys e of
             Inl x \<Rightarrow> Inl (Raised x)
           | Inr s2 \<Rightarrow>
               (case send_secrets W e sys ss of
                  Inl err \<Rightarrow> Inl err
                | Inr ss' \<Rightarrow> Inr (s2 # ss'))))"

definition secrets_to :: "world \<Rightarrow> pydict env \<Rightarrow> system \<Rightarrow> error + secret list" where
  "secrets_to W e sys =
     (case secrets e of
        None \<Rightarrow> Inl (TypeError not_iterable)
      | Some ss \<Rightarrow> send_secrets W e sys ss)"

text \<open>
  The block under \<open>if node_idx is not None\<close>: the bound check, \<open>new_env.compute = {}\<close> when
  it is \<open>None\<close>, and the store into \<open>new_env.compute\<close>. The environment \<open>new_env\<close> is at the
  address \<open>na\<close>.
\<close>

definition init_compute :: "nat \<Rightarrow> store \<Rightarrow> error + store" where
  "init_compute na h =
     (case env_at h na of
        None \<Rightarrow> Inl (Dangling na)
      | Some ne \<Rightarrow>
          (case compute ne of
             None \<Rightarrow> Inr ((h @ [Obj_dict []])[na := Obj_env (ne\<lparr>compute := Some (length h)\<rparr>)])
           | Some d \<Rightarrow> Inr h))"

definition compute_setitem :: "nat \<Rightarrow> string \<Rightarrow> pyval \<Rightarrow> store \<Rightarrow> error + store" where
  "compute_setitem na k v h =
     (case env_at h na of
        None \<Rightarrow> Inl (Dangling na)
      | Some ne \<Rightarrow>
          (case compute ne of
             None \<Rightarrow> Inl (TypeError no_item_assignment)
           | Some d \<Rightarrow>
               (case dict_at h d of
                  None \<Rightarrow> Inl (Dangling d)
                | Some m \<Rightarrow> Inr (h[d := Obj_dict (dict_set m k v)]))))"

definition record_node_idx :: "cluster \<Rightarrow> int \<Rightarrow> nat \<Rightarrow> store \<Rightarrow> error + store" where
  "record_node_idx c node_idx na h =
     (if node_idx \<ge> int (length (ips c))
      then Inl (ValueError (''Cluster '' @ cluster_name c @ '' has only '' @
                  str_nat (length (ips c)) @ '' nodes. Requested node index '' @
                  str_int node_idx @ '' is out of bounds.''))
      else (case init_compute na h of
              Inl err \<Rightarrow> Inl err
            | Inr h1 \<Rightarrow> compute_setitem na ''node_idx'' (PInt node_idx) h1))"

text \<open>
  The rest of the cluster branch: the key under which the copy is registered, the
  environment variables, the remote install, and the secrets, which are assigned to the
  copy. \<open>self_e\<close> is the caller's environment.
\<close>

definition cluster_setup ::
  "world \<Rightarrow> cluster \<Rightarrow> nat env \<Rightarrow> nat \<Rightarrow> bool \<Rightarrow> store \<Rightarrow> error + store" where
  "cluster_setup W c self_e na force_install h =
     (case env_at h na of
        None \<Rightarrow> Inl (Dangling na)
      | Some ne \<Rightarrow>
     (case (if truthy_str (name ne)
            then (case put_resource W c (snapshot h ne) of
                    Inl x \<Rightarrow> Inl (Raised x)
                  | Inr k \<Rightarrow> Inr (Some k))
            else Inr (default_env_name c)) of
        Inl err \<Rightarrow> Inl err
      | Inr key \<Rightarrow>
     (case process_env_vars W (env_vars self_e) of
        Inl err \<Rightarrow> Inl err
      | Inr vars \<Rightarrow>
     (case (if vars \<noteq> [] then lift (cluster_call W c key (Call_set_env_vars vars))
            else Inr ()) of
        Inl err \<Rightarrow> Inl err
      | Inr u \<Rightarrow>
     (case (if truthy_str (name ne)
            then lift (cluster_call W c key (Call_install force_install))
            else (case lift (cluster_call W c key (Call_install_reqs (reqs ne))) of
                    Inl err \<Rightarrow> Inl err
                  | Inr u' \<Rightarrow>
                      lift (cluster_call W c key (Call_run_setup_cmds (setup_cmds ne))))) of
        Inl err \<Rightarrow> Inl err
      | Inr u \<Rightarrow>
     (case secrets_to W (snapshot h self_e) (Sys_cluster c) of
        Inl err \<Rightarrow> Inl err
      | Inr ss \<Rightarrow> Inr (h[na := Obj_env (ne\<lparr>secrets := Some ss\<rparr>)])))))))"

text \<open>
  \<open>Env.to\<close>, for the environment at address \<open>a\<close>. The result is the address of the new
  environment, or the exception; the store is returned in either case.
\<close>

definition to ::
  "world \<Rightarrow> nat \<Rightarrow> system \<Rightarrow> int option \<Rightarrow> string option \<Rightarrow> bool \<Rightarrow> bool \<Rightarrow> store
     \<Rightarrow> (error + nat) \<times> store" where
  "to W a target node_idx path mount force_install h =
     (let system = get_cluster_from W target
      in case env_at h a of
           None \<Rightarrow> (Inl (Dangling a), h)
         | Some self_e \<Rightarrow>
      (case deepcopy h a of
         Inl err \<Rightarrow> (Inl err, h)
       | Inr (na, h1) \<Rightarrow>
      (case reqs_to W self_e system path mount of
         Inl err \<Rightarrow> (Inl err, h1)
       | Inr (new_reqs, new_wd) \<Rightarrow>
      (case env_at h1 na of
         None \<Rightarrow> (Inl (Dangling na), h1)
       | Some ne \<Rightarrow>
      (let h2 = h1[na := Obj_env (ne\<lparr>p_reqs := Some new_reqs, working_dir := new_wd\<rparr>)]
       in case system of
            Sys_str s \<Rightarrow> (Inr na, h2)
          | Sys_cluster c \<Rightarrow>
              (case (case node_idx of
                       None \<Rightarrow> Inr h2
                     | Some k \<Rightarrow> record_node_idx c k na h2) of
                 Inl err \<Rightarrow> (Inl err, h2)
               | Inr h3 \<Rightarrow>
                   (case cluster_setup W c self_e na force_install h3 of
                      Inl err \<Rightarrow> (Inl err, h3)
                    | Inr h4 \<Rightarrow> (Inr na, h4))))))))"

text \<open>
  Reading \<open>new_env.compute[k]\<close> back from the store, for the environment at \<open>na\<close>.
\<close>

definition compute_getitem :: "store \<Rightarrow> nat \<Rightarrow> string \<Rightarrow> pyval option" where
  "compute_getitem h na k =
     (case env_at h na of
        None \<Rightarrow> None
      | Some ne \<Rightarrow> (case compute (snapshot h ne) of None \<Rightarrow> None | Some m \<Rightarrow> dict_get m k))"

text \<open>
  In Python a reference always leads to an object: the compute attribute of an
  environment is \<open>None\<close> or refers to a dictionary.
\<close>

definition compute_bound :: "store \<Rightarrow> nat env \<Rightarrow> bool" where
  "compute_bound h e = (case compute e of None \<Rightarrow> True | Some d \<Rightarrow> dict_at h d \<noteq> None)"

text \<open>Two environment objects agree on every attribute other than \<open>compute\<close>.\<close>

definition same_attrs :: "nat env \<Rightarrow> nat env \<Rightarrow> bool" where
  "same_attrs x y =
     (name x = name y \<and> p_reqs x = p_reqs y \<and> setup_cmds x = setup_cmds y \<and>
      env_vars x = env_vars y \<and> working_dir x = working_dir y \<and> secrets x = secrets y)"

text \<open>
  The copy made by \<open>deepcopy\<close> and everything it refers to were allocated by the call:
  with \<open>n\<close> the size of the store when \<open>to\<close> was entered, the environment at \<open>na\<close> and its
  compute dictionary sit at addresses from \<open>n\<close> on.
\<close>

definition fresh_copy :: "nat \<Rightarrow> store \<Rightarrow> nat \<Rightarrow> bool" where
  "fresh_copy n h na =
     (n \<le> na \<and>
      (case env_at h na of
         None \<Rightarrow> False
       | Some ne \<Rightarrow>
           (case compute ne of None \<Rightarrow> True | Some d \<Rightarrow> n \<le> d \<and> dict_at h d \<noteq> None)))"

section \<open>Callable references: \<open>Send\<close>\<close>

text \<open>
  Modelled from the spec: the enumeration \<open>ResourceAccess\<close> (module
  \<open>runhouse.rns.api_utils.resource_access\<close>) is not among the sources. The specification
  gives the access levels write, read and proxy; \<open>send.py\<close> compares its members with the
  attribute \<open>access\<close>, a string whose default is \<open>'write'\<close>, so the members are the strings
  of those names.
\<close>

definition ResourceAccess_write :: string where
  "ResourceAccess_write = ''write''"

definition ResourceAccess_read :: string where
  "ResourceAccess_read = ''read''"


text \<open>The attributes of a \<open>Send\<close> that its call methods read.\<close>

record send =
  send_name :: "string option"
  fn_pointers :: "(string option \<times> string \<times> string) option"
  access :: string

text \<open>
  The call envelope \<open>[relative_path, module_name, fn_name, fn_type, args, kwargs]\<close> and the
  response \<open>[res, fn_exception, fn_traceback]\<close>. Pickling and unpickling are the identity
  on these values.
\<close>

type_synonym envelope = "string option \<times> string \<times> string \<times> string \<times> pyval \<times> pyval"

type_synonym response = "pyval \<times> exn option \<times> string option"

text \<open>
  What a call method does besides returning: records written to the logger (level and
  message), envelopes handed to \<open>hardware.call_grpc\<close>, and calls of \<open>ray.init\<close>.
\<close>

record channel =
  logged :: "(string \<times> string) list"
  sent :: "envelope list"
  ray_inits :: nat

text \<open>\<open>str\<close> of the traceback in the log record: \<open>None\<close> prints as \<open>None\<close>.\<close>

fun traceback_str :: "string option \<Rightarrow> string" where
  "traceback_str None = ''None''"
| "traceback_str (Some t) = t"

text \<open>
  \<open>_call_fn_with_ssh_access\<close>. The transport \<open>hardware.call_grpc\<close> is a parameter; it
  returns the response or raises. An exception prints in the log as its message.
\<close>

definition call_fn_with_ssh_access ::
  "(envelope \<Rightarrow> exn + response) \<Rightarrow> send \<Rightarrow> string \<Rightarrow> pyval \<Rightarrow> pyval \<Rightarrow> channel
     \<Rightarrow> (error + pyval) \<times> channel" where
  "call_fn_with_ssh_access call_grpc s fn_type args kwargs ch =
     (let nm = (if truthy_str (send_name s) then the (send_name s) else ''anonymous send'');
          ch1 = ch\<lparr>logged := logged ch @ [(''INFO'', ''Running '' @ nm @ '' via SSH'')]\<rparr>
      in case fn_pointers s of
           None \<Rightarrow> (Inl (RuntimeError (''No fn pointers saved for '' @ nm)), ch1)
         | Some (relative_path, module_name, fn_name) \<Rightarrow>
             (let serialized_func = (relative_path, module_name, fn_name, fn_type, args, kwargs);
                  ch2 = ch1\<lparr>sent := sent ch1 @ [serialized_func]\<rparr>
              in case call_grpc serialized_func of
                   Inl x \<Rightarrow> (Inl (Raised x), ch2)
                 | Inr (res, fn_exception, fn_traceback) \<Rightarrow>
                     (case fn_exception of
                        Some ex \<Rightarrow>
                          (Inl (Raised ex),
                           ch2\<lparr>logged := logged ch2 @
                             [(''ERROR'', ''Error inside send '' @ fn_type @ '': '' @ exn_msg ex @ ''.''),
                              (''ERROR'', ''Traceback: '' @ traceback_str fn_traceback)]\<rparr>)
                      | None \<Rightarrow> (Inr res, ch2))))"

text \<open>The test \<open>self.access in [ResourceAccess.write, ResourceAccess.read]\<close>.\<close>

definition has_ssh_access :: "send \<Rightarrow> bool" where
  "has_ssh_access s = (access s = ResourceAccess_write \<or> access s = ResourceAccess_read)"

definition send_repeat ::
  "(envelope \<Rightarrow> exn + response) \<Rightarrow> send \<Rightarrow> int \<Rightarrow> pyval list \<Rightarrow> pydict \<Rightarrow> channel
     \<Rightarrow> (error + pyval) \<times> channel" where
  "send_repeat call_grpc s num_repeats args kwargs ch =
     (if has_ssh_access s
      then call_fn_with_ssh_access call_grpc s ''repeat''
             (PList [PInt num_repeats, PTuple args]) (PDict kwargs) ch
      else (Inl (NotImplementedError
                  ''Send.repeat only works with Write or Read access, not Proxy access''), ch))"

definition send_map ::
  "(envelope \<Rightarrow> exn + response) \<Rightarrow> send \<Rightarrow> pyval \<Rightarrow> pydict \<Rightarrow> channel
     \<Rightarrow> (error + pyval) \<times> channel" where
  "send_map call_grpc s arg_list kwargs ch =
     (if has_ssh_access s
      then call_fn_with_ssh_access call_grpc s ''map'' arg_list (PDict kwargs) ch
      else (Inl (NotImplementedError
                  ''Send.map only works with Write or Read access, not Proxy access''), ch))"

definition send_starmap ::
  "(envelope \<Rightarrow> exn + response) \<Rightarrow> send \<Rightarrow> pyval \<Rightarrow> pydict \<Rightarrow> channel
     \<Rightarrow> (error + pyval) \<times> channel" where
  "send_starmap call_grpc s args_lists kwargs ch =
     (if has_ssh_access s
      then call_fn_with_ssh_access call_grpc s ''starmap'' args_lists (PDict kwargs) ch
      else (Inl (NotImplementedError
                  ''Send.starmap only works with Write or Read access, not Proxy access''), ch))"

definition send_enqueue ::
  "(envelope \<Rightarrow> exn + response) \<Rightarrow> send \<Rightarrow> pyval list \<Rightarrow> pydict \<Rightarrow> channel
     \<Rightarrow> (error + pyval) \<times> channel" where
  "send_enqueue call_grpc s args kwargs ch =
     (if has_ssh_access s
      then call_fn_with_ssh_access call_grpc s ''queue'' (PTuple args) (PDict kwargs) ch
      else (Inl (NotImplementedError
                  ''Send.enqueue only works with Write or Read access, not Proxy access''), ch))"

text \<open>
  \<open>remote\<close> imports Ray and calls \<open>ray.init\<close> before it looks at the access level; the
  message of its \<open>NotImplementedError\<close> is the one of \<open>map\<close>. What \<open>ray.init\<close> does is a
  parameter: it returns, or raises, and an exception from it leaves the method at once.
\<close>

definition send_remote ::
  "(envelope \<Rightarrow> exn + response) \<Rightarrow> exn + unit \<Rightarrow> send \<Rightarrow> pyval list \<Rightarrow> pydict \<Rightarrow> channel
     \<Rightarrow> (error + pyval) \<times> channel" where
  "send_remote call_grpc ray_init s args kwargs ch =
     (let ch1 = ch\<lparr>ray_inits := Suc (ray_inits ch)\<rparr>
      in case ray_init of
           Inl x \<Rightarrow> (Inl (Raised x), ch1)
         | Inr u \<Rightarrow>
             if has_ssh_access s
             then call_fn_with_ssh_access call_grpc s ''remote'' (PTuple args) (PDict kwargs) ch1
             else (Inl (NotImplementedError
                         ''Send.map only works with Write or Read access, not Proxy access''),
                   ch1))"


section \<open>Collaborators for evaluation\<close>

text \<open>
  To evaluate the functions at concrete inputs the collaborators have to be given. The
  ones below all return normally. The base configuration holds the name and the resource
  type; \<open>save_attrs_to_config\<close> stores each attribute it is handed whose value is truthy
  under the attribute's name; a requirement that is neither a string nor a package has
  no sub-configuration; a configuration is rendered the way \<open>str\<close> renders a dict of
  such values. Python's \<open>hash\<close> of a string is keyed per process; its place is taken by a
  polynomial hash on 64 bits.
\<close>

fun join :: "string \<Rightarrow> string list \<Rightarrow> string" where
  "join sep [] = []"
| "join sep [x] = x"
| "join sep (x # y # ys) = x @ sep @ join sep (y # ys)"

fun repr :: "pyval \<Rightarrow> string"
  and repr_list :: "pyval list \<Rightarrow> string list"
  and repr_items :: "(string \<times> pyval) list \<Rightarrow> string list" where
  "repr PNone = ''None''"
| "repr (PBool b) = (if b then ''True'' else ''False'')"
| "repr (PInt i) = str_int i"
| "repr (PStr s) = [CHR 0x27] @ s @ [CHR 0x27]"
| "repr (PList xs) = ''['' @ join '', '' (repr_list xs) @ '']''"
| "repr (PTuple xs) = ''('' @ join '', '' (repr_list xs) @ '')''"
| "repr (PDict d) = ''{'' @ join '', '' (repr_items d) @ ''}''"
| "repr_list [] = []"
| "repr_list (x # xs) = repr x # repr_list xs"
| "repr_items [] = []"
| "repr_items ((k, v) # d) = ([CHR 0x27] @ k @ [CHR 0x27] @ '': '' @ repr v) # repr_items d"

definition poly_hash :: "string \<Rightarrow> int" where
  "poly_hash s = foldl (\<lambda>h c. (h * 31 + int (of_char c)) mod 18446744073709551616) 0 s"

fun truthy_val :: "pyval \<Rightarrow> bool" where
  "truthy_val PNone = False"
| "truthy_val (PBool b) = b"
| "truthy_val (PInt i) = (i \<noteq> 0)"
| "truthy_val (PStr s) = (s \<noteq> [])"
| "truthy_val (PList xs) = (xs \<noteq> [])"
| "truthy_val (PTuple xs) = (xs \<noteq> [])"
| "truthy_val (PDict d) = (d \<noteq> [])"

fun req_string :: "req option \<Rightarrow> exn + pyval" where
  "req_string None = Inr PNone"
| "req_string (Some (RStr s)) = Inr (PStr s)"
| "req_string (Some (RPkg p)) =
     (case install_target p of Target_str s \<Rightarrow> Inr (PStr s) | Target_folder f \<Rightarrow> Inr (PStr f))"
| "req_string (Some (RPath p)) = Inl (Exn ''ValueError'' (p @ '' is not a valid sub-config''))"

definition plain_world :: world where
  "plain_world =
     \<lparr>base_config = (\<lambda>e. [(''name'', opt_str_val (name e)), (''resource_type'', PStr ''env''),
                            (''resource_subtype'', PStr ''Env'')]),
      save_attrs_to_config = (\<lambda>cfg attrs. dict_update cfg (filter (\<lambda>kv. truthy_val (snd kv)) attrs)),
      resource_string_for_subconfig = req_string,
      py_str = (\<lambda>cfg. repr (PDict cfg)),
      py_hash = poly_hash,
      from_string = (\<lambda>s. Inr \<lparr>install_target = Target_str s, install_method = ''pip''\<rparr>),
      pkg_to = (\<lambda>p sys path mount. Inr p),
      pkg_install = (\<lambda>p e cl. Inr ()),
      env_vars_from_file = (\<lambda>f. Inr []),
      run_with_logs = (\<lambda>cmd. Inr (0, [])),
      run_commands_with_ssh = (\<lambda>c cmd vars. Inr (0, [])),
      get_cluster_from = (\<lambda>sys. sys),
      put_resource = (\<lambda>c e. Inr (case name e of None \<Rightarrow> [] | Some n \<Rightarrow> n)),
      cluster_call = (\<lambda>c key call. Inr ()),
      secret_from_name = (\<lambda>n. Inr (Secret_obj n)),
      secret_to = (\<lambda>s sys e. Inr s)\<rparr>"

text \<open>The same collaborators, except that the installer of the package \<open>numpy\<close> raises.\<close>

definition numpy_fails :: world where
  "numpy_fails =
     plain_world\<lparr>pkg_install :=
       (\<lambda>p e cl. if install_target p = Target_str ''numpy''
                  then Inl (Exn ''CalledProcessError'' ''pip install numpy failed'')
                  else Inr ())\<rparr>"

text \<open>A fresh node process, and environments to install on it.\<close>

definition fresh_node :: node where
  "fresh_node = \<lparr>installed_envs = Map.empty, trace = []\<rparr>"

definition numpy_env :: "string option \<Rightarrow> pydict env" where
  "numpy_env n =
     \<lparr>name = n, p_reqs = Some [RStr ''numpy'', RStr ''scipy''], setup_cmds = Some [''echo ready''],
      env_vars = Vars_dict [], working_dir = None, secrets = Some [], compute = Some []\<rparr>"

text \<open>
  A cluster of two nodes, and a client store holding one environment (at address 1)
  whose compute request (at address 0) asks for two CPUs.
\<close>

definition two_nodes :: cluster where
  "two_nodes =
     \<lparr>cluster_name = ''rh-cpu'', ips = [''10.0.0.1'', ''10.0.0.2''], on_this_cluster = False,
      default_env_name = Some ''base_env'', default_env_run_cmd = []\<rparr>"

definition client_env :: "nat env" where
  "client_env =
     \<lparr>name = Some ''numpy_env'', p_reqs = Some [RStr ''numpy''], setup_cmds = None,
      env_vars = Vars_dict [], working_dir = None, secrets = Some [], compute = Some 0\<rparr>"

definition client_store :: store where
  "client_store = [Obj_dict [(''CPU'', PInt 2)], Obj_env client_env]"

text \<open>
  Collaborators whose \<open>Package.to\<close> moves a folder to the system it is sent to, and a
  client store whose environment (at address 1) has a local folder as its working
  directory and a secret given by name.
\<close>

definition uploaded :: "package \<Rightarrow> system \<Rightarrow> string option \<Rightarrow> package" where
  "uploaded p sys path =
     p\<lparr>install_target :=
         Target_folder
           ((case sys of Sys_cluster c \<Rightarrow> cluster_name c | Sys_str n \<Rightarrow> n) @ '':'' @
            (case path of
               Some q \<Rightarrow> q
             | None \<Rightarrow> (case install_target p of Target_folder f \<Rightarrow> f | Target_str t \<Rightarrow> t)))\<rparr>"

definition uploading_world :: world where
  "uploading_world = plain_world\<lparr>pkg_to := (\<lambda>p sys path mount. Inr (uploaded p sys path))\<rparr>"

definition project_env :: "nat env" where
  "project_env =
     \<lparr>name = Some ''proj_env'', p_reqs = Some [RStr ''numpy''], setup_cmds = Some [''echo ready''],
      env_vars = Vars_dict [],
      working_dir = Some (RPkg \<lparr>install_target = Target_folder ''./'', install_method = ''local''\<rparr>),
      secrets = Some [Secret_name ''aws''], compute = Some 0\<rparr>"

definition project_store :: store where
  "project_store = [Obj_dict [(''CPU'', PInt 2)], Obj_env project_env]"

text \<open>
  A \<open>Send\<close> with proxy access, a channel on which nothing has happened yet, and a
  transport whose response carries an exception raised on the node.
\<close>

definition proxy_send :: send where
  "proxy_send =
     \<lparr>send_name = Some ''summer'', fn_pointers = Some (Some ''pkg/funcs'', ''funcs'', ''summer''),
      access = ''proxy''\<rparr>"

definition idle_channel :: channel where
  "idle_channel = \<lparr>logged = [], sent = [], ray_inits = 0\<rparr>"

definition raising_grpc :: "envelope \<Rightarrow> exn + response" where
  "raising_grpc env =
     Inr (PNone, Some (Exn ''ZeroDivisionError'' ''division by zero''),
          Some ''Traceback (most recent call last)'')"

definition returning_grpc :: "envelope \<Rightarrow> exn + response" where
  "returning_grpc env = Inr (PInt 7, None, None)"

section \<open>Properties of the environment's derived attributes\<close>

text \<open>
  C10. An environment whose name is \<open>None\<close> has \<open>env_name\<close> equal to the fixed string
  \<open>"base"\<close>; a named environment (a non-empty name) has \<open>env_name\<close> equal to that name;
  and \<open>env_name\<close> is never \<open>None\<close>.
\<close>

theorem env_name_base_or_name:
  "(name e = None \<longrightarrow> env_name e = Some ''base'') \<and>
   (\<forall>n. name e = Some n \<and> n \<noteq> [] \<longrightarrow> env_name e = Some n) \<and>
   env_name e \<noteq> None"
  by (cases "name e") (auto simp: env_name_def)

theorem env_name_base_or_name_witness:
  "env_name (\<lparr>name = None, p_reqs = Some [], setup_cmds = None, env_vars = Vars_dict [],
      working_dir = None, secrets = Some [], compute = Some []\<rparr> :: pydict env) = Some ''base'' \<and>
   env_name (\<lparr>name = Some ''numpy_env'', p_reqs = Some [], setup_cmds = None, env_vars = Vars_dict [],
      working_dir = None, secrets = Some [], compute = Some []\<rparr> :: pydict env) = Some ''numpy_env''"
  using env_name_base_or_name
    [of "\<lparr>name = None, p_reqs = Some [], setup_cmds = None, env_vars = Vars_dict [],
      working_dir = None, secrets = Some [], compute = Some ([] :: pydict)\<rparr>"]
    env_name_base_or_name
    [of "\<lparr>name = Some ''numpy_env'', p_reqs = Some [], setup_cmds = None, env_vars = Vars_dict [],
      working_dir = None, secrets = Some [], compute = Some ([] :: pydict)\<rparr>"]
  by simp

text \<open>
  C7. The property \<open>reqs\<close> returns the declared requirements in their order, followed by
  the working directory as the last element when the working directory is set, and
  exactly the declared requirements when it is not. "Set" is the test the property makes,
  \<open>if self.working_dir\<close>: the working directory is neither \<open>None\<close> nor the empty string.
  The declared requirements are \<open>_reqs\<close>, with \<open>None\<close> read as the empty list.
\<close>

theorem reqs_appends_working_dir:
  "(truthy_req (working_dir e) \<longrightarrow>
      reqs e = (case p_reqs e of None \<Rightarrow> [] | Some rs \<Rightarrow> rs) @ [the (working_dir e)] \<and>
      last (reqs e) = the (working_dir e)) \<and>
   (\<not> truthy_req (working_dir e) \<longrightarrow>
      reqs e = (case p_reqs e of None \<Rightarrow> [] | Some rs \<Rightarrow> rs))"
  by (cases "p_reqs e") (auto simp: reqs_def)

theorem reqs_appends_working_dir_witness:
  "reqs (\<lparr>name = None, p_reqs = Some [RStr ''numpy'', RStr ''pip''], setup_cmds = None,
      env_vars = Vars_dict [], working_dir = Some (RStr ''./''), secrets = Some [],
      compute = Some []\<rparr> :: pydict env) = [RStr ''numpy'', RStr ''pip'', RStr ''./''] \<and>
   reqs (\<lparr>name = None, p_reqs = Some [RStr ''numpy'', RStr ''pip''], setup_cmds = None,
      env_vars = Vars_dict [], working_dir = None, secrets = Some [],
      compute = Some []\<rparr> :: pydict env) = [RStr ''numpy'', RStr ''pip'']"
  using reqs_appends_working_dir
    [of "\<lparr>name = None, p_reqs = Some [RStr ''numpy'', RStr ''pip''], setup_cmds = None,
      env_vars = Vars_dict [], working_dir = Some (RStr ''./''), secrets = Some [],
      compute = Some ([] :: pydict)\<rparr>"]
    reqs_appends_working_dir
    [of "\<lparr>name = None, p_reqs = Some [RStr ''numpy'', RStr ''pip''], setup_cmds = None,
      env_vars = Vars_dict [], working_dir = None, secrets = Some [],
      compute = Some ([] :: pydict)\<rparr>"]
  by simp

section \<open>Properties of \<open>install\<close>\<close>

text \<open>
  The loop of \<open>_install_reqs\<close> adds nothing to the trace but installer invocations, at
  most one for each requirement.
\<close>

lemma install_packages_events:
  "install_packages W e cl rs tr = (res, tr') \<Longrightarrow>
   \<exists>ps. tr' = tr @ map Ev_install ps \<and> length ps \<le> length rs"
proof (induction rs arbitrary: tr)
  case Nil
  then show ?case by simp
next
  case (Cons r rs)
  show ?case
  proof (cases "resolve_package W cl r")
    case (Inl err)
    with Cons.prems show ?thesis by simp
  next
    case resolved: (Inr pkg)
    show ?thesis
    proof (cases "pkg_install W pkg e cl")
      case (Inl x)
      with resolved Cons.prems
      have "tr' = tr @ map Ev_install [pkg] \<and> length [pkg] \<le> length (r # rs)" by simp
      then show ?thesis by blast
    next
      case (Inr u)
      with resolved Cons.prems
      have "install_packages W e cl rs (tr @ [Ev_install pkg]) = (res, tr')" by simp
      from Cons.IH [OF this] obtain ps
        where "tr' = (tr @ [Ev_install pkg]) @ map Ev_install ps" and "length ps \<le> length rs"
        by blast
      then have "tr' = tr @ map Ev_install (pkg # ps) \<and> length (pkg # ps) \<le> length (r # rs)"
        by simp
      then show ?thesis by blast
    qed
  qed
qed

text \<open>Once the loop has raised, the requirements that follow play no part in the outcome.\<close>

lemma install_packages_abort:
  "install_packages W e cl rs tr = (Inl err, tr') \<Longrightarrow>
   install_packages W e cl (rs @ post) tr = (Inl err, tr')"
proof (induction rs arbitrary: tr)
  case Nil
  then show ?case by simp
next
  case (Cons r rs)
  then show ?case by (auto split: sum.splits)
qed

text \<open>The hashes of the evaluation environments under the evaluation collaborators.\<close>

lemma hash_numpy_env_a:
  "install_hash plain_world (numpy_env (Some ''a'')) = Inr 6112138241443013212"
  by (simp add: install_hash_def config_def plain_world_def numpy_env_def env_name_def
      dict_pop_def poly_hash_def)

lemma hash_numpy_env_b:
  "install_hash plain_world (numpy_env (Some ''b'')) = Inr 6386961130625121467"
  by (simp add: install_hash_def config_def plain_world_def numpy_env_def env_name_def
      dict_pop_def poly_hash_def)

lemma hash_numpy_env_a_fails:
  "install_hash numpy_fails (numpy_env (Some ''a'')) = Inr 6112138241443013212"
  by (simp add: install_hash_def config_def plain_world_def numpy_fails_def numpy_env_def
      env_name_def dict_pop_def poly_hash_def)

lemma install_numpy_env_a:
  "install plain_world (numpy_env (Some ''a'')) False None fresh_node =
     (Inr (), \<lparr>installed_envs = [6112138241443013212 \<mapsto> Some ''a''],
               trace = [Ev_install \<lparr>install_target = Target_str ''numpy'', install_method = ''pip''\<rparr>,
                        Ev_install \<lparr>install_target = Target_str ''scipy'', install_method = ''pip''\<rparr>,
                        Ev_shell ''echo ready'']\<rparr>)"
  unfolding install_def hash_numpy_env_a
  by (simp add: install_reqs_def reqs_def resolve_package_def run_setup_cmds_def run_cmd_def
      process_env_vars_def run_setup_command_def lift_def fresh_node_def numpy_env_def
      plain_world_def)

text \<open>
  C1. Two environments that are the same except for their name are installed one after
  the other on a fresh node. \<open>install\<close> removes the key \<open>name\<close> from the configuration
  before hashing it, but \<open>config\<close> has also handed \<open>env_name\<close>, which is the name, to
  \<open>save_attrs_to_config\<close>: the configuration that is hashed still tells the two
  environments apart. Their hashes differ, the second \<open>install\<close> finds no entry in
  \<open>installed_envs\<close>, and every installer and setup command runs a second time.
\<close>

theorem renamed_env_installs_again:
  "install_hash plain_world (numpy_env (Some ''a'')) \<noteq>
     install_hash plain_world (numpy_env (Some ''b'')) \<and>
   trace (snd (install plain_world (numpy_env (Some ''b'')) False None
                 (snd (install plain_world (numpy_env (Some ''a'')) False None fresh_node)))) =
     [Ev_install \<lparr>install_target = Target_str ''numpy'', install_method = ''pip''\<rparr>,
      Ev_install \<lparr>install_target = Target_str ''scipy'', install_method = ''pip''\<rparr>,
      Ev_shell ''echo ready'',
      Ev_install \<lparr>install_target = Target_str ''numpy'', install_method = ''pip''\<rparr>,
      Ev_install \<lparr>install_target = Target_str ''scipy'', install_method = ''pip''\<rparr>,
      Ev_shell ''echo ready'']"
  unfolding install_numpy_env_a
  unfolding install_def hash_numpy_env_b hash_numpy_env_a
  by (simp add: install_reqs_def reqs_def resolve_package_def run_setup_cmds_def run_cmd_def
      process_env_vars_def run_setup_command_def lift_def fresh_node_def numpy_env_def
      plain_world_def)

lemma install_numpy_env_a_fails:
  "install numpy_fails (numpy_env (Some ''a'')) False None fresh_node =
     (Inl (Raised (Exn ''CalledProcessError'' ''pip install numpy failed'')),
      \<lparr>installed_envs = [6112138241443013212 \<mapsto> Some ''a''],
       trace = [Ev_install \<lparr>install_target = Target_str ''numpy'', install_method = ''pip''\<rparr>]\<rparr>)"
  unfolding install_def hash_numpy_env_a_fails
  by (simp add: install_reqs_def reqs_def resolve_package_def lift_def fresh_node_def
      numpy_env_def plain_world_def numpy_fails_def)

text \<open>
  C2. An environment with the requirements \<open>numpy\<close> and \<open>scipy\<close> and one setup command is
  installed on a fresh node, and the installer of \<open>numpy\<close> raises. \<open>install\<close> stores the
  hash in \<open>installed_envs\<close> before it calls \<open>_install_reqs\<close>, and the exception leaves the
  entry there: the map is not what it was before the call, although the only thing that
  ran is the installer that failed. A second \<open>install\<close>, now with an installer that
  works, finds the entry and returns at once; \<open>scipy\<close> is never installed and the setup
  command never runs.
\<close>

theorem failed_install_records_hash:
  "fst (install numpy_fails (numpy_env (Some ''a'')) False None fresh_node) =
     Inl (Raised (Exn ''CalledProcessError'' ''pip install numpy failed'')) \<and>
   installed_envs (snd (install numpy_fails (numpy_env (Some ''a'')) False None fresh_node)) \<noteq>
     installed_envs fresh_node \<and>
   trace (snd (install numpy_fails (numpy_env (Some ''a'')) False None fresh_node)) =
     [Ev_install \<lparr>install_target = Target_str ''numpy'', install_method = ''pip''\<rparr>] \<and>
   install plain_world (numpy_env (Some ''a'')) False None
       (snd (install numpy_fails (numpy_env (Some ''a'')) False None fresh_node)) =
     (Inr (), snd (install numpy_fails (numpy_env (Some ''a'')) False None fresh_node))"
  unfolding install_numpy_env_a_fails
  by (simp add: install_def hash_numpy_env_a fresh_node_def)

text \<open>
  In general: when \<open>_install_reqs\<close> raises during an \<open>install\<close> that got past the cache
  check, \<open>install\<close> raises the same exception; the trace has grown by installer
  invocations only, so no setup command has run, and the requirements after the failing
  one have not been looked at; the hash has been stored in \<open>installed_envs\<close> with the
  environment's name, so that a second \<open>install\<close> with \<open>force=False\<close> returns at once and
  changes nothing.
\<close>

lemma install_failure_keeps_hash:
  assumes "install_hash W e = Inr h"
    and "installed_envs nd h = None \<or> force"
    and "install_reqs W e cl None (trace nd) = (Inl err, tr)"
  shows "install W e force cl nd =
           (Inl err, nd\<lparr>installed_envs := (installed_envs nd)(h \<mapsto> name e), trace := tr\<rparr>) \<and>
         (\<exists>ps. tr = trace nd @ map Ev_install ps) \<and>
         (\<forall>post. install_packages W e cl (reqs e @ post) (trace nd) = (Inl err, tr)) \<and>
         install W e False cl (snd (install W e force cl nd)) =
           (Inr (), snd (install W e force cl nd))"
proof -
  let ?nd' = "nd\<lparr>installed_envs := (installed_envs nd)(h \<mapsto> name e), trace := tr\<rparr>"
  have run: "install W e force cl nd = (Inl err, ?nd')"
    using assms by (auto simp: install_def)
  have pk: "install_packages W e cl (reqs e) (trace nd) = (Inl err, tr)"
    using assms(3) by (simp add: install_reqs_def)
  from install_packages_events [OF pk]
  have ev: "\<exists>ps. tr = trace nd @ map Ev_install ps" by blast
  have ab: "\<forall>post. install_packages W e cl (reqs e @ post) (trace nd) = (Inl err, tr)"
    using install_packages_abort [OF pk] by blast
  have "install W e False cl ?nd' = (Inr (), ?nd')"
    using assms(1) by (simp add: install_def)
  with run ev ab show ?thesis by simp
qed

text \<open>
  C6. When the environment's hash is already a key of \<open>installed_envs\<close> and \<open>force\<close> is
  false, \<open>install\<close> returns at once: the node's state, and with it the trace of installer
  invocations and setup commands, is what it was.
\<close>

theorem install_cached_is_noop:
  assumes "install_hash W e = Inr h" and "installed_envs nd h \<noteq> None"
  shows "install W e False cl nd = (Inr (), nd)"
  using assms by (simp add: install_def)

theorem install_cached_is_noop_witness:
  "install plain_world (numpy_env (Some ''b'')) False None
     \<lparr>installed_envs = [6386961130625121467 \<mapsto> Some ''a''], trace = []\<rparr> =
   (Inr (), \<lparr>installed_envs = [6386961130625121467 \<mapsto> Some ''a''], trace = []\<rparr>)"
proof -
  have "installed_envs \<lparr>installed_envs = [6386961130625121467 \<mapsto> Some ''a''], trace = []\<rparr>
          6386961130625121467 \<noteq> None"
    by simp
  from install_cached_is_noop [OF hash_numpy_env_b this] show ?thesis .
qed

text \<open>
  Two environments with the same hash: whatever the first \<open>install\<close> did, the second one
  with \<open>force=False\<close> returns at once.
\<close>

lemma install_same_hash_once:
  assumes "install_hash W e1 = Inr h" and "install_hash W e2 = Inr h"
  shows "install W e2 False cl (snd (install W e1 force cl nd)) =
           (Inr (), snd (install W e1 force cl nd))"
proof -
  have "installed_envs (snd (install W e1 force cl nd)) h \<noteq> None"
    using assms(1) by (auto simp: install_def Let_def split: prod.splits sum.splits)
  with assms(2) show ?thesis by (simp add: install_def)
qed

section \<open>Properties of the call methods of \<open>Send\<close>\<close>





text \<open>
  With write or read access the methods hand over to \<open>_call_fn_with_ssh_access\<close>,
  \<open>remote\<close> once \<open>ray.init\<close> has returned.
\<close>

lemma ssh_access_dispatch:
  assumes "has_ssh_access s"
  shows "send_repeat g s n args kwargs ch =
           call_fn_with_ssh_access g s ''repeat'' (PList [PInt n, PTuple args]) (PDict kwargs) ch"
    and "send_map g s arg_list kwargs ch =
           call_fn_with_ssh_access g s ''map'' arg_list (PDict kwargs) ch"
    and "send_starmap g s arg_list kwargs ch =
           call_fn_with_ssh_access g s ''starmap'' arg_list (PDict kwargs) ch"
    and "send_enqueue g s args kwargs ch =
           call_fn_with_ssh_access g s ''queue'' (PTuple args) (PDict kwargs) ch"
    and "send_remote g (Inr ()) s args kwargs ch =
           call_fn_with_ssh_access g s ''remote'' (PTuple args) (PDict kwargs)
             (ch\<lparr>ray_inits := Suc (ray_inits ch)\<rparr>)"
  using assms
  by (simp_all add: send_repeat_def send_map_def send_starmap_def send_enqueue_def
      send_remote_def)

text \<open>
  C5. In \<open>_call_fn_with_ssh_access\<close>, when the response of the transport carries an
  exception, two error records are logged, one with the exception and one with the
  traceback, and that very exception object is raised; when it carries none, the result
  of the response is returned as it is.
\<close>

theorem remote_exception_is_reraised:
  assumes "fn_pointers s = Some (relative_path, module_name, fn_name)"
    and "call_grpc (relative_path, module_name, fn_name, fn_type, args, kwargs) =
           Inr (res, fn_exception, fn_traceback)"
  shows
    "(\<forall>ex. fn_exception = Some ex \<longrightarrow>
        call_fn_with_ssh_access call_grpc s fn_type args kwargs ch =
          (Inl (Raised ex),
           ch\<lparr>logged := logged ch @
                 [(''INFO'', ''Running '' @
                     (if truthy_str (send_name s) then the (send_name s) else ''anonymous send'') @
                     '' via SSH''),
                  (''ERROR'', ''Error inside send '' @ fn_type @ '': '' @ exn_msg ex @ ''.''),
                  (''ERROR'', ''Traceback: '' @ traceback_str fn_traceback)],
               sent := sent ch @ [(relative_path, module_name, fn_name, fn_type, args, kwargs)]\<rparr>)) \<and>
     (fn_exception = None \<longrightarrow>
        call_fn_with_ssh_access call_grpc s fn_type args kwargs ch =
          (Inr res,
           ch\<lparr>logged := logged ch @
                 [(''INFO'', ''Running '' @
                     (if truthy_str (send_name s) then the (send_name s) else ''anonymous send'') @
                     '' via SSH'')],
               sent := sent ch @ [(relative_path, module_name, fn_name, fn_type, args, kwargs)]\<rparr>))"
  using assms by (auto simp: call_fn_with_ssh_access_def Let_def)

theorem remote_exception_is_reraised_witness:
  "call_fn_with_ssh_access raising_grpc (proxy_send\<lparr>access := ''write''\<rparr>) ''call''
     (PTuple [PInt 1, PInt 0]) (PDict []) idle_channel =
     (Inl (Raised (Exn ''ZeroDivisionError'' ''division by zero'')),
      \<lparr>logged = [(''INFO'', ''Running summer via SSH''),
                 (''ERROR'', ''Error inside send call: division by zero.''),
                 (''ERROR'', ''Traceback: Traceback (most recent call last)'')],
       sent = [(Some ''pkg/funcs'', ''funcs'', ''summer'', ''call'', PTuple [PInt 1, PInt 0], PDict [])],
       ray_inits = 0\<rparr>) \<and>
   call_fn_with_ssh_access returning_grpc (proxy_send\<lparr>access := ''write''\<rparr>)
     ''call'' (PTuple [PInt 3, PInt 4]) (PDict []) idle_channel =
     (Inr (PInt 7),
      \<lparr>logged = [(''INFO'', ''Running summer via SSH'')],
       sent = [(Some ''pkg/funcs'', ''funcs'', ''summer'', ''call'', PTuple [PInt 3, PInt 4], PDict [])],
       ray_inits = 0\<rparr>)"
proof -
  have fp: "fn_pointers (proxy_send\<lparr>access := ''write''\<rparr>) =
      Some (Some ''pkg/funcs'', ''funcs'', ''summer'')"
    by (simp add: proxy_send_def)
  have g1: "raising_grpc (Some ''pkg/funcs'', ''funcs'', ''summer'', ''call'',
        PTuple [PInt 1, PInt 0], PDict []) =
      Inr (PNone, Some (Exn ''ZeroDivisionError'' ''division by zero''),
           Some ''Traceback (most recent call last)'')"
    by (simp add: raising_grpc_def)
  have g2: "returning_grpc (Some ''pkg/funcs'', ''funcs'', ''summer'', ''call'',
        PTuple [PInt 3, PInt 4], PDict []) = Inr (PInt 7, None, None)"
    by (simp add: returning_grpc_def)
  from remote_exception_is_reraised
         [where call_grpc = raising_grpc and ch = idle_channel, OF fp g1]
    remote_exception_is_reraised
         [where call_grpc = returning_grpc and ch = idle_channel, OF fp g2]
  show ?thesis by (simp add: proxy_send_def idle_channel_def)
qed

section \<open>Properties of \<open>to\<close>\<close>

subsection \<open>Reading and writing the store\<close>

lemma env_at_SomeD: "env_at h a = Some e \<Longrightarrow> a < length h \<and> h ! a = Obj_env e"
  by (auto simp: env_at_def split: if_splits obj.splits)

lemma dict_at_SomeD: "dict_at h a = Some m \<Longrightarrow> a < length h \<and> h ! a = Obj_dict m"
  by (auto simp: dict_at_def split: if_splits obj.splits)

lemma env_at_update_same: "a < length h \<Longrightarrow> env_at (h[a := Obj_env e]) a = Some e"
  by (simp add: env_at_def)

lemma dict_at_update_same: "a < length h \<Longrightarrow> dict_at (h[a := Obj_dict m]) a = Some m"
  by (simp add: dict_at_def)

lemma dict_at_update_other: "a \<noteq> b \<Longrightarrow> dict_at (h[a := x]) b = dict_at h b"
  by (simp add: dict_at_def)

lemma env_at_update_other: "a \<noteq> b \<Longrightarrow> env_at (h[a := x]) b = env_at h b"
  by (simp add: env_at_def)

lemma env_at_append: "a < length h \<Longrightarrow> env_at (h @ xs) a = env_at h a"
  by (simp add: env_at_def nth_append)

lemma dict_at_append: "a < length h \<Longrightarrow> dict_at (h @ xs) a = dict_at h a"
  by (simp add: dict_at_def nth_append)

lemma deepcopy_fresh:
  assumes "deepcopy h a = Inr (na, h1)"
  shows "take (length h) h1 = h \<and> fresh_copy (length h) h1 na"
  using assms
  by (auto simp: deepcopy_def fresh_copy_def env_at_def dict_at_def nth_append
      split: option.splits if_splits obj.splits)

lemma set_attrs_fresh:
  assumes "fresh_copy n h na" and "env_at h na = Some ne" and "compute ne' = compute ne"
  shows "take n (h[na := Obj_env ne']) = take n h \<and> fresh_copy n (h[na := Obj_env ne']) na"
proof -
  from assms(2) have len: "na < length h" by (simp add: env_at_SomeD)
  from assms(1) have "n \<le> na" by (simp add: fresh_copy_def)
  then have t: "take n (h[na := Obj_env ne']) = take n h" by (simp add: take_update_cancel)
  have "fresh_copy n (h[na := Obj_env ne']) na"
  proof (cases "compute ne")
    case None
    with assms \<open>n \<le> na\<close> len show ?thesis
      by (simp add: fresh_copy_def env_at_update_same)
  next
    case (Some d)
    with assms have d: "n \<le> d" "dict_at h d \<noteq> None" by (auto simp: fresh_copy_def)
    then obtain m where "dict_at h d = Some m" by blast
    with assms(2) have "d \<noteq> na" by (auto dest!: env_at_SomeD dict_at_SomeD)
    then have "dict_at (h[na := Obj_env ne']) d = dict_at h d" by (simp add: dict_at_update_other)
    with Some assms(3) d \<open>n \<le> na\<close> len show ?thesis
      by (simp add: fresh_copy_def env_at_update_same)
  qed
  with t show ?thesis by simp
qed

lemma init_compute_fresh:
  assumes "fresh_copy n h na" and "n \<le> length h" and "init_compute na h = Inr h1"
  shows "take n h1 = take n h \<and> fresh_copy n h1 na \<and> n \<le> length h1"
proof -
  from assms(1) obtain ne where ne: "env_at h na = Some ne" and "n \<le> na"
    by (auto simp: fresh_copy_def split: option.splits)
  then have len: "na < length h" by (simp add: env_at_SomeD)
  show ?thesis
  proof (cases "compute ne")
    case None
    with ne assms(3) have h1: "h1 = (h @ [Obj_dict []])[na := Obj_env (ne\<lparr>compute := Some (length h)\<rparr>)]"
      by (simp add: init_compute_def)
    have "take n h1 = take n h" using \<open>n \<le> na\<close> assms(2) by (simp add: h1 take_update_cancel)
    moreover have "fresh_copy n h1 na"
      using \<open>n \<le> na\<close> assms(2) len
      by (simp add: h1 fresh_copy_def env_at_def dict_at_def nth_append)
    moreover have "n \<le> length h1" using assms(2) by (simp add: h1)
    ultimately show ?thesis by simp
  next
    case (Some d)
    with ne assms show ?thesis by (simp add: init_compute_def)
  qed
qed

lemma compute_setitem_fresh:
  assumes "fresh_copy n h na" and "compute_setitem na k v h = Inr h1"
  shows "take n h1 = take n h \<and> fresh_copy n h1 na \<and> length h1 = length h"
proof -
  from assms(2) obtain ne d m where ne: "env_at h na = Some ne" and d: "compute ne = Some d"
    and m: "dict_at h d = Some m" and h1: "h1 = h[d := Obj_dict (dict_set m k v)]"
    by (auto simp: compute_setitem_def split: option.splits)
  from assms(1) ne d have "n \<le> d" "n \<le> na" by (auto simp: fresh_copy_def)
  from ne m have "d \<noteq> na" by (auto dest!: env_at_SomeD dict_at_SomeD)
  from m have dl: "d < length h" by (simp add: dict_at_SomeD)
  have "take n h1 = take n h" using \<open>n \<le> d\<close> by (simp add: h1 take_update_cancel)
  moreover have "fresh_copy n h1 na"
    using \<open>n \<le> d\<close> \<open>n \<le> na\<close> ne d \<open>d \<noteq> na\<close> dl
    by (simp add: h1 fresh_copy_def env_at_update_other dict_at_update_same)
  ultimately show ?thesis by (simp add: h1)
qed

lemma record_node_idx_fresh:
  assumes "fresh_copy n h na" and "n \<le> length h" and "record_node_idx c k na h = Inr h1"
  shows "take n h1 = take n h \<and> fresh_copy n h1 na \<and> n \<le> length h1"
proof -
  from assms(3) obtain h0 where i: "init_compute na h = Inr h0"
    and s: "compute_setitem na ''node_idx'' (PInt k) h0 = Inr h1"
    by (auto simp: record_node_idx_def split: if_splits sum.splits)
  from init_compute_fresh [OF assms(1,2) i]
  have a: "take n h0 = take n h" "fresh_copy n h0 na" "n \<le> length h0" by simp_all
  from compute_setitem_fresh [OF a(2) s] a show ?thesis by simp
qed

lemma cluster_setup_fresh:
  assumes "fresh_copy n h na" and "cluster_setup W c self_e na force h = Inr h1"
  shows "take n h1 = take n h \<and> fresh_copy n h1 na \<and> length h1 = length h"
proof -
  from assms(2) obtain ne ss where ne: "env_at h na = Some ne"
    and h1: "h1 = h[na := Obj_env (ne\<lparr>secrets := Some ss\<rparr>)]"
    by (auto simp: cluster_setup_def split: option.splits sum.splits)
  have "compute (ne\<lparr>secrets := Some ss\<rparr>) = compute ne" by simp
  from set_attrs_fresh [OF assms(1) ne this] show ?thesis by (simp add: h1)
qed


lemma to_frame:
  "take (length h) (snd (to W a target node_idx path mount force h)) = h \<and>
   (case fst (to W a target node_idx path mount force h) of
      Inl err \<Rightarrow> True
    | Inr na \<Rightarrow> fresh_copy (length h) (snd (to W a target node_idx path mount force h)) na)"
proof (cases "env_at h a")
  case None
  then show ?thesis by (simp add: to_def)
next
  case self: (Some self_e)
  show ?thesis
  proof (cases "deepcopy h a")
    case (Inl err)
    with self show ?thesis by (simp add: to_def)
  next
    case (Inr p)
    then obtain na h1 where dc: "deepcopy h a = Inr (na, h1)" by (cases p) auto
    from deepcopy_fresh [OF dc] have t1: "take (length h) h1 = h" and f1: "fresh_copy (length h) h1 na"
      by simp_all
    from t1 have l1: "length h \<le> length h1" by (metis length_take min.cobounded2 min.commute)
    show ?thesis
    proof (cases "reqs_to W self_e (get_cluster_from W target) path mount")
      case (Inl err)
      with self dc t1 show ?thesis by (simp add: to_def)
    next
      case (Inr q)
      then obtain new_reqs new_wd where rt: "reqs_to W self_e (get_cluster_from W target) path mount = Inr (new_reqs, new_wd)"
        by (cases q) auto
      from f1 obtain ne where ne: "env_at h1 na = Some ne"
        by (auto simp: fresh_copy_def split: option.splits)
      let ?h2 = "h1[na := Obj_env (ne\<lparr>p_reqs := Some new_reqs, working_dir := new_wd\<rparr>)]"
      have "compute (ne\<lparr>p_reqs := Some new_reqs, working_dir := new_wd\<rparr>) = compute ne" by simp
      from set_attrs_fresh [OF f1 ne this]
      have t2: "take (length h) ?h2 = h" and f2: "fresh_copy (length h) ?h2 na"
        using t1 by simp_all
      have l2: "length h \<le> length ?h2" using l1 by simp
      show ?thesis
      proof (cases "get_cluster_from W target")
        case (Sys_str s)
        with self dc rt ne t2 f2 show ?thesis by (simp add: to_def)
      next
        case (Sys_cluster c)
        show ?thesis
        proof (cases "case node_idx of None \<Rightarrow> Inr ?h2 | Some k \<Rightarrow> record_node_idx c k na ?h2")
          case (Inl err)
          with self dc rt ne t2 Sys_cluster show ?thesis by (simp add: to_def)
        next
          case (Inr h3)
          have "take (length h) h3 = h \<and> fresh_copy (length h) h3 na"
          proof (cases node_idx)
            case None
            with Inr t2 f2 show ?thesis by simp
          next
            case (Some k)
            with Inr have "record_node_idx c k na ?h2 = Inr h3" by simp
            from record_node_idx_fresh [OF f2 l2 this] t2 show ?thesis by simp
          qed
          then have t3: "take (length h) h3 = h" and f3: "fresh_copy (length h) h3 na" by simp_all
          show ?thesis
          proof (cases "cluster_setup W c self_e na force h3")
            case (Inl err)
            with self dc rt ne Sys_cluster \<open>_ = Inr h3\<close> t3 show ?thesis by (simp add: to_def)
          next
            case h4: (Inr h4)
            from cluster_setup_fresh [OF f3 h4] t3
            have "take (length h) h4 = h" "fresh_copy (length h) h4 na" by simp_all
            with self dc rt ne Sys_cluster \<open>_ = Inr h3\<close> h4 show ?thesis by (simp add: to_def)
          qed
        qed
      qed
    qed
  qed
qed

lemma prefix_lookup:
  assumes "take (length h) h' = h" and "b < length h"
  shows "env_at h' b = env_at h b \<and> dict_at h' b = dict_at h b"
proof -
  from assms(1) have "length h \<le> length h'" by (metis length_take min.cobounded2 min.commute)
  moreover from assms have "h' ! b = h ! b" by (metis nth_take)
  ultimately show ?thesis using assms(2) by (simp add: env_at_def dict_at_def)
qed

lemma snapshot_frame:
  assumes "take (length h) h' = h" and "compute_bound h e"
  shows "snapshot h' e = snapshot h e"
proof (cases "compute e")
  case None
  then show ?thesis by (simp add: snapshot_def)
next
  case (Some d)
  with assms(2) obtain m where "dict_at h d = Some m" by (auto simp: compute_bound_def)
  then have "d < length h" by (simp add: dict_at_SomeD)
  from prefix_lookup [OF assms(1) this] Some show ?thesis by (simp add: snapshot_def)
qed

text \<open>The evaluation store, cluster and collaborators meet what the theorems below ask for.\<close>

lemma client_env_at: "env_at client_store 1 = Some client_env"
  by (simp add: env_at_def client_store_def)

lemma client_compute_bound: "compute_bound client_store client_env"
  by (simp add: compute_bound_def client_env_def client_store_def dict_at_def)

lemma client_cluster: "get_cluster_from plain_world (Sys_cluster two_nodes) = Sys_cluster two_nodes"
  by (simp add: plain_world_def)

lemma client_reqs_to:
  "reqs_to plain_world client_env (Sys_cluster two_nodes) None False = Inr ([RStr ''numpy''], None)"
  by (simp add: reqs_to_def reqs_def client_env_def rebase_req_def plain_world_def)

lemma plain_put: "\<forall>e'. \<exists>key. put_resource plain_world two_nodes e' = Inr key"
  by (simp add: plain_world_def)

lemma plain_call: "\<forall>key rc. cluster_call plain_world two_nodes key rc = Inr ()"
  by (simp add: plain_world_def)

lemma client_vars: "\<exists>vs. process_env_vars plain_world (env_vars client_env) = Inr vs"
  by (simp add: process_env_vars_def client_env_def)

lemma client_secrets:
  "\<exists>ss. secrets_to plain_world (snapshot client_store client_env) (Sys_cluster two_nodes) = Inr ss"
  by (simp add: secrets_to_def snapshot_def client_env_def)

lemma two_nodes_length: "int (length (ips two_nodes)) = 2"
  by (simp add: two_nodes_def)

lemma str_two: "str_nat 2 = ''2''" "str_int 2 = ''2''"
  by (simp_all add: str_int_def str_nat.simps [of 2] digit_char_def)

lemma to_client_store:
  "to plain_world 1 (Sys_cluster two_nodes) (Some 1) None False False client_store =
     (Inr 3, client_store @
        [Obj_dict [(''CPU'', PInt 2), (''node_idx'', PInt 1)], Obj_env (client_env\<lparr>compute := Some 2\<rparr>)])"
  by (simp add: to_def client_store_def client_env_def plain_world_def two_nodes_def env_at_def
      dict_at_def deepcopy_def reqs_to_def reqs_def rebase_req_def record_node_idx_def
      init_compute_def compute_setitem_def cluster_setup_def process_env_vars_def lift_def
      secrets_to_def snapshot_def)

subsection \<open>The copy and the caller's environment\<close>

text \<open>
  What \<open>_reqs_to\<close> returns is, requirement by requirement, bound to the system in the
  sense of \<open>bound_to\<close>, and read back through the property \<open>reqs\<close> of the copy it is
  the rebased list.
\<close>

lemma rebase_req_bound:
  "rebase_req W sys path mount r = Inr r' \<Longrightarrow> bound_to W sys path mount r r'"
  by (auto simp: rebase_req_def bound_to_def sent_to_def
      split: req.splits sum.splits if_splits)

lemma rebase_reqs_bound:
  "rebase_reqs W sys path mount xs = Inr ys \<Longrightarrow> list_all2 (bound_to W sys path mount) xs ys"
proof (induction xs arbitrary: ys)
  case Nil
  then show ?case by simp
next
  case (Cons r rs)
  then show ?case
    by (auto split: sum.splits dest: rebase_req_bound)
qed

lemma bound_to_truthy:
  "bound_to W sys path mount r r' \<Longrightarrow> truthy_req (Some r) \<Longrightarrow> truthy_req (Some r')"
  by (auto simp: bound_to_def sent_to_def split: req.splits sum.splits if_splits)

lemma reqs_of_rebased:
  assumes "reqs_to W e sys path mount = Inr (rs, wd)"
    and "p_reqs ne = Some rs" and "working_dir ne = wd"
  shows "list_all2 (bound_to W sys path mount) (reqs e) (reqs ne)"
proof -
  from assms(1) obtain ys where ys: "rebase_reqs W sys path mount (reqs e) = Inr ys"
    by (auto simp: reqs_to_def split: sum.splits)
  from rebase_reqs_bound [OF ys] have all: "list_all2 (bound_to W sys path mount) (reqs e) ys" .
  have "reqs ne = ys"
  proof (cases "truthy_req (working_dir e)")
    case False
    with assms ys show ?thesis
      by (cases rs) (auto simp: reqs_to_def reqs_def)
  next
    case True
    with assms(1) ys have ne: "ys \<noteq> []" and rs: "rs = butlast ys" and wd: "wd = Some (last ys)"
      by (auto simp: reqs_to_def split: list.splits)
    from True have "reqs e \<noteq> []" "last (reqs e) = the (working_dir e)"
      by (simp_all add: reqs_def)
    with all ne have "bound_to W sys path mount (the (working_dir e)) (last ys)"
      by (metis list_all2_lengthD list_all2_nthD last_conv_nth length_greater_0_conv
          diff_less zero_less_one)
    moreover from True have "truthy_req (Some (the (working_dir e)))"
      by (cases "working_dir e") auto
    ultimately have "truthy_req (Some (last ys))" by (rule bound_to_truthy)
    with assms(2,3) wd have "reqs ne = rs @ [last ys]"
      by (cases rs) (auto simp: reqs_def)
    with rs ne show ?thesis by simp
  qed
  with all show ?thesis by simp
qed

lemma deepcopy_copy:
  assumes "env_at h a = Some e" and "compute_bound h e"
  shows "\<exists>na h1 ne. deepcopy h a = Inr (na, h1) \<and> env_at h1 na = Some ne \<and>
           same_attrs ne e \<and>
           compute (snapshot h1 ne) = compute (snapshot h e)"
proof (cases "compute e")
  case None
  with assms show ?thesis
    by (simp add: deepcopy_def env_at_def snapshot_def same_attrs_def)
next
  case (Some d)
  with assms(2) obtain m where m: "dict_at h d = Some m" by (auto simp: compute_bound_def)
  with assms(1) Some show ?thesis
    by (simp add: deepcopy_def env_at_def dict_at_def snapshot_def nth_append same_attrs_def)
qed

lemma snapshot_compute_set_attrs:
  assumes "fresh_copy n h na" and "env_at h na = Some ne" and "compute ne' = compute ne"
  shows "compute (snapshot (h[na := Obj_env ne']) ne') = compute (snapshot h ne)"
proof (cases "compute ne")
  case None
  with assms show ?thesis by (simp add: snapshot_def)
next
  case (Some d)
  with assms obtain m where "dict_at h d = Some m" by (auto simp: fresh_copy_def)
  with assms(2) have "d \<noteq> na" by (auto dest!: env_at_SomeD dict_at_SomeD)
  with Some assms show ?thesis by (simp add: snapshot_def dict_at_update_other)
qed

lemma record_node_idx_copy:
  assumes "fresh_copy n h na" and "env_at h na = Some ne" and "k < int (length (ips c))"
  shows "\<exists>h3 ne3. record_node_idx c k na h = Inr h3 \<and> env_at h3 na = Some ne3 \<and>
           same_attrs ne3 ne \<and>
           compute (snapshot h3 ne3) =
             Some (dict_set (case compute (snapshot h ne) of None \<Rightarrow> [] | Some m \<Rightarrow> m)
                     ''node_idx'' (PInt k))"
proof -
  from assms(2) have len: "na < length h" by (simp add: env_at_SomeD)
  show ?thesis
  proof (cases "compute ne")
    case None
    with assms len show ?thesis
      by (simp add: record_node_idx_def init_compute_def compute_setitem_def env_at_def
          dict_at_def snapshot_def nth_append same_attrs_def)
  next
    case (Some d)
    with assms obtain m where m: "dict_at h d = Some m" by (auto simp: fresh_copy_def)
    with assms(2) have ne: "d \<noteq> na" by (auto dest!: env_at_SomeD dict_at_SomeD)
    from m have dl: "d < length h" by (simp add: dict_at_SomeD)
    from Some assms m ne dl show ?thesis
      by (simp add: record_node_idx_def init_compute_def compute_setitem_def snapshot_def
          env_at_update_other dict_at_update_same same_attrs_def)
  qed
qed

lemma cluster_setup_copy:
  assumes "fresh_copy n h na" and "env_at h na = Some ne"
    and put: "\<And>e'. \<exists>key. put_resource W c e' = Inr key"
    and call: "\<And>key rc. cluster_call W c key rc = Inr ()"
    and vars: "process_env_vars W (env_vars e) = Inr vs"
    and secs: "secrets_to W (snapshot h e) (Sys_cluster c) = Inr ss"
  shows "cluster_setup W c e na force h = Inr (h[na := Obj_env (ne\<lparr>secrets := Some ss\<rparr>)])"
proof -
  obtain key where key: "put_resource W c (snapshot h ne) = Inr key" using put by blast
  show ?thesis
    using assms(2) key call vars secs by (simp add: cluster_setup_def lift_def)
qed

lemma length_of_prefix: "take (length h) h' = h \<Longrightarrow> length h \<le> length h'"
  by (metis length_take min.cobounded2 min.commute)

lemma to_returns_copy_str:
  assumes self: "env_at h a = Some e"
    and wf: "compute_bound h e"
    and sys: "get_cluster_from W target = Sys_str n"
    and rq: "reqs_to W e (Sys_str n) path mount = Inr (rs, wd)"
  shows "\<exists>na ne. to W a target node_idx path mount force h =
             (Inr na, snd (to W a target node_idx path mount force h)) \<and>
           env_at (snd (to W a target node_idx path mount force h)) na = Some ne \<and>
           same_attrs ne (e\<lparr>p_reqs := Some rs, working_dir := wd\<rparr>) \<and>
           compute (snapshot (snd (to W a target node_idx path mount force h)) ne) =
             compute (snapshot h e)"
proof -
  from deepcopy_copy [OF self wf] obtain na h1 ne1
    where dc: "deepcopy h a = Inr (na, h1)" and e1: "env_at h1 na = Some ne1"
      and c1: "same_attrs ne1 e"
      and s1: "compute (snapshot h1 ne1) = compute (snapshot h e)" by blast
  from deepcopy_fresh [OF dc] have f1: "fresh_copy (length h) h1 na" by simp
  let ?ne2 = "ne1\<lparr>p_reqs := Some rs, working_dir := wd\<rparr>"
  let ?h2 = "h1[na := Obj_env ?ne2]"
  have cc: "compute ?ne2 = compute ne1" by simp
  from e1 have len: "na < length h1" by (simp add: env_at_SomeD)
  have r: "to W a target node_idx path mount force h = (Inr na, ?h2)"
    using self dc sys rq e1 by (simp add: to_def)
  have "same_attrs ?ne2 (e\<lparr>p_reqs := Some rs, working_dir := wd\<rparr>)"
    using c1 by (simp add: same_attrs_def)
  with r len snapshot_compute_set_attrs [OF f1 e1 cc] s1 show ?thesis
    by (simp add: env_at_update_same)
qed

lemma to_returns_copy_cluster:
  assumes self: "env_at h a = Some e"
    and wf: "compute_bound h e"
    and sys: "get_cluster_from W target = Sys_cluster c"
    and rq: "reqs_to W e (Sys_cluster c) path mount = Inr (rs, wd)"
    and idx: "\<And>k. node_idx = Some k \<Longrightarrow> k < int (length (ips c))"
    and put: "\<And>e'. \<exists>key. put_resource W c e' = Inr key"
    and call: "\<And>key rc. cluster_call W c key rc = Inr ()"
    and vars: "process_env_vars W (env_vars e) = Inr vs"
    and secs: "secrets_to W (snapshot h e) (Sys_cluster c) = Inr ss"
  shows "\<exists>na ne. to W a target node_idx path mount force h =
             (Inr na, snd (to W a target node_idx path mount force h)) \<and>
           env_at (snd (to W a target node_idx path mount force h)) na = Some ne \<and>
           same_attrs ne (e\<lparr>p_reqs := Some rs, working_dir := wd, secrets := Some ss\<rparr>) \<and>
           compute (snapshot (snd (to W a target node_idx path mount force h)) ne) =
             (case node_idx of
                None \<Rightarrow> compute (snapshot h e)
              | Some k \<Rightarrow>
                  Some (dict_set (case compute (snapshot h e) of None \<Rightarrow> [] | Some m \<Rightarrow> m)
                          ''node_idx'' (PInt k)))"
proof -
  from deepcopy_copy [OF self wf] obtain na h1 ne1
    where dc: "deepcopy h a = Inr (na, h1)" and e1: "env_at h1 na = Some ne1"
      and c1: "same_attrs ne1 e"
      and s1: "compute (snapshot h1 ne1) = compute (snapshot h e)" by blast
  from deepcopy_fresh [OF dc] have t1: "take (length h) h1 = h"
    and f1: "fresh_copy (length h) h1 na" by simp_all
  let ?ne2 = "ne1\<lparr>p_reqs := Some rs, working_dir := wd\<rparr>"
  let ?h2 = "h1[na := Obj_env ?ne2]"
  have cc: "compute ?ne2 = compute ne1" by simp
  from e1 have len: "na < length h1" by (simp add: env_at_SomeD)
  from set_attrs_fresh [OF f1 e1 cc] t1
  have t2: "take (length h) ?h2 = h" and f2: "fresh_copy (length h) ?h2 na" by simp_all
  have e2: "env_at ?h2 na = Some ?ne2" using len by (simp add: env_at_update_same)
  have s2: "compute (snapshot ?h2 ?ne2) = compute (snapshot h e)"
    using snapshot_compute_set_attrs [OF f1 e1 cc] s1 by simp
  have c2: "same_attrs ?ne2 (e\<lparr>p_reqs := Some rs, working_dir := wd\<rparr>)"
    using c1 by (simp add: same_attrs_def)
  from length_of_prefix [OF t2] have l2: "length h \<le> length ?h2" .
  have "\<exists>h3 ne3. (case node_idx of None \<Rightarrow> Inr ?h2 | Some k \<Rightarrow> record_node_idx c k na ?h2) = Inr h3 \<and>
          take (length h) h3 = h \<and> fresh_copy (length h) h3 na \<and> env_at h3 na = Some ne3 \<and>
          same_attrs ne3 ?ne2 \<and>
          compute (snapshot h3 ne3) =
            (case node_idx of
               None \<Rightarrow> compute (snapshot h e)
             | Some k \<Rightarrow>
                 Some (dict_set (case compute (snapshot h e) of None \<Rightarrow> [] | Some m \<Rightarrow> m)
                         ''node_idx'' (PInt k)))"
  proof (cases node_idx)
    case None
    with t2 f2 e2 s2 show ?thesis by (simp add: same_attrs_def)
  next
    case (Some k)
    from record_node_idx_copy [OF f2 e2 idx [OF Some]] obtain h3 ne3
      where r: "record_node_idx c k na ?h2 = Inr h3" and e3: "env_at h3 na = Some ne3"
        and c3: "same_attrs ne3 ?ne2"
        and s3: "compute (snapshot h3 ne3) =
          Some (dict_set (case compute (snapshot ?h2 ?ne2) of None \<Rightarrow> [] | Some m \<Rightarrow> m)
                  ''node_idx'' (PInt k))" by blast
    from record_node_idx_fresh [OF f2 l2 r] t2
    have "take (length h) h3 = h" "fresh_copy (length h) h3 na" by simp_all
    with Some r e3 c3 s3 s2 show ?thesis by simp
  qed
  then obtain h3 ne3
    where r3: "(case node_idx of None \<Rightarrow> Inr ?h2 | Some k \<Rightarrow> record_node_idx c k na ?h2) = Inr h3"
      and t3: "take (length h) h3 = h" and f3: "fresh_copy (length h) h3 na"
      and e3: "env_at h3 na = Some ne3"
      and c3: "same_attrs ne3 ?ne2"
      and s3: "compute (snapshot h3 ne3) =
            (case node_idx of
               None \<Rightarrow> compute (snapshot h e)
             | Some k \<Rightarrow>
                 Some (dict_set (case compute (snapshot h e) of None \<Rightarrow> [] | Some m \<Rightarrow> m)
                         ''node_idx'' (PInt k)))" by blast
  from snapshot_frame [OF t3 wf] secs
  have secs3: "secrets_to W (snapshot h3 e) (Sys_cluster c) = Inr ss" by simp
  let ?ne4 = "ne3\<lparr>secrets := Some ss\<rparr>"
  let ?h4 = "h3[na := Obj_env ?ne4]"
  from cluster_setup_copy [OF f3 e3 put call vars secs3]
  have c4: "cluster_setup W c e na force h3 = Inr ?h4" .
  have r: "to W a target node_idx path mount force h = (Inr na, ?h4)"
    using self dc sys rq e1 r3 c4 by (simp add: to_def)
  from e3 have len3: "na < length h3" by (simp add: env_at_SomeD)
  have cc4: "compute ?ne4 = compute ne3" by simp
  have s4: "compute (snapshot ?h4 ?ne4) = compute (snapshot h3 ne3)"
    using snapshot_compute_set_attrs [OF f3 e3 cc4] .
  have "same_attrs ?ne4 (e\<lparr>p_reqs := Some rs, working_dir := wd, secrets := Some ss\<rparr>)"
    using c2 c3 by (simp add: same_attrs_def)
  with r len3 s4 s3 show ?thesis by (simp add: env_at_update_same)
qed

text \<open>The second evaluation store and its collaborators meet what the theorem asks for.\<close>

lemma project_env_at: "env_at project_store 1 = Some project_env"
  by (simp add: env_at_def project_store_def)

lemma project_compute_bound: "compute_bound project_store project_env"
  by (simp add: compute_bound_def project_env_def project_store_def dict_at_def)

lemma project_snapshot_compute:
  "compute (snapshot project_store project_env) = Some [(''CPU'', PInt 2)]"
  by (simp add: snapshot_def project_env_def project_store_def dict_at_def)

lemma uploading_cluster:
  "get_cluster_from uploading_world (Sys_cluster two_nodes) = Sys_cluster two_nodes"
  by (simp add: uploading_world_def plain_world_def)

lemma uploading_str: "get_cluster_from uploading_world (Sys_str ''s3'') = Sys_str ''s3''"
  by (simp add: uploading_world_def plain_world_def)

lemma project_reqs_to_cluster:
  "reqs_to uploading_world project_env (Sys_cluster two_nodes) None False =
     Inr ([RStr ''numpy''],
          Some (RPkg \<lparr>install_target = Target_folder ''rh-cpu:./'', install_method = ''local''\<rparr>))"
  by (simp add: reqs_to_def reqs_def project_env_def rebase_req_def uploading_world_def
      plain_world_def uploaded_def two_nodes_def)

lemma project_reqs_to_str:
  "reqs_to uploading_world project_env (Sys_str ''s3'') (Some ''bucket/env'') False =
     Inr ([RStr ''numpy''],
          Some (RPkg \<lparr>install_target = Target_folder ''s3:bucket/env'', install_method = ''local''\<rparr>))"
  by (simp add: reqs_to_def reqs_def project_env_def rebase_req_def uploading_world_def
      plain_world_def uploaded_def)

lemma uploading_put: "\<forall>e'. \<exists>key. put_resource uploading_world two_nodes e' = Inr key"
  by (simp add: uploading_world_def plain_world_def)

lemma uploading_call: "\<forall>key rc. cluster_call uploading_world two_nodes key rc = Inr ()"
  by (simp add: uploading_world_def plain_world_def)

lemma project_vars: "process_env_vars uploading_world (env_vars project_env) = Inr []"
  by (simp add: process_env_vars_def project_env_def)

lemma project_secrets:
  "secrets_to uploading_world (snapshot project_store project_env) (Sys_cluster two_nodes) =
     Inr [Secret_obj ''aws'']"
  by (simp add: secrets_to_def snapshot_def project_env_def uploading_world_def plain_world_def
      lift_def)

text \<open>
  C3. For the environment \<open>E\<close> at address \<open>a\<close> and any target, \<open>to\<close> leaves every object
  that was in the store before the call as it was, whether it returns or raises: \<open>E\<close> is
  the same object with the same attributes, \<open>reqs\<close>, \<open>working_dir\<close>, \<open>secrets\<close> and
  \<open>compute\<close> among them, and the dictionary its \<open>compute\<close> refers to has the same items.
  And \<open>to\<close> returns a new environment bound to the target. When the target is a storage
  system and \<open>_reqs_to\<close> raises nothing, and when it is a cluster and moreover the node
  index, if one is given, is below the number of nodes and \<open>put_resource\<close>, \<open>call\<close>, the
  environment variables and \<open>_secrets_to\<close> raise nothing, the result is an environment at
  another address with the name, setup commands and environment variables of \<open>E\<close>; its
  requirements and working directory are what \<open>_reqs_to\<close> returned, each requirement of
  \<open>E\<close> bound to the target; its secrets are those of \<open>E\<close> for a storage system and the
  ones sent to the cluster otherwise; its compute request is a dictionary of its own,
  allocated by the call, with the items of \<open>E\<close>'s and the node index when one was given.
\<close>

theorem to_copies_and_keeps_caller:
  assumes "env_at h a = Some e"
  shows
    "take (length h) (snd (to W a target node_idx path mount force h)) = h \<and>
     env_at (snd (to W a target node_idx path mount force h)) a = Some e \<and>
     snapshot (snd (to W a target node_idx path mount force h)) e = snapshot h e \<and>
     (\<forall>na. fst (to W a target node_idx path mount force h) = Inr na \<longrightarrow>
        a \<noteq> na \<and> env_at (snd (to W a target node_idx path mount force h)) na \<noteq> None) \<and>
     (compute_bound h e \<and> get_cluster_from W target = Sys_str n \<and>
      reqs_to W e (Sys_str n) path mount = Inr (rs, wd) \<longrightarrow>
        (\<exists>na ne. fst (to W a target node_idx path mount force h) = Inr na \<and> a \<noteq> na \<and>
           env_at (snd (to W a target node_idx path mount force h)) na = Some ne \<and>
           name ne = name e \<and> setup_cmds ne = setup_cmds e \<and> env_vars ne = env_vars e \<and>
           p_reqs ne = Some rs \<and> working_dir ne = wd \<and> secrets ne = secrets e \<and>
           list_all2 (bound_to W (Sys_str n) path mount) (reqs e) (reqs ne) \<and>
           compute (snapshot (snd (to W a target node_idx path mount force h)) ne) =
             compute (snapshot h e) \<and>
           (\<forall>d. compute ne = Some d \<longrightarrow> length h \<le> d))) \<and>
     (compute_bound h e \<and> get_cluster_from W target = Sys_cluster c \<and>
      reqs_to W e (Sys_cluster c) path mount = Inr (rs, wd) \<and>
      (\<forall>k. node_idx = Some k \<longrightarrow> k < int (length (ips c))) \<and>
      (\<forall>e'. \<exists>key. put_resource W c e' = Inr key) \<and>
      (\<forall>key rc. cluster_call W c key rc = Inr ()) \<and>
      process_env_vars W (env_vars e) = Inr vs \<and>
      secrets_to W (snapshot h e) (Sys_cluster c) = Inr ss \<longrightarrow>
        (\<exists>na ne. fst (to W a target node_idx path mount force h) = Inr na \<and> a \<noteq> na \<and>
           env_at (snd (to W a target node_idx path mount force h)) na = Some ne \<and>
           name ne = name e \<and> setup_cmds ne = setup_cmds e \<and> env_vars ne = env_vars e \<and>
           p_reqs ne = Some rs \<and> working_dir ne = wd \<and> secrets ne = Some ss \<and>
           list_all2 (bound_to W (Sys_cluster c) path mount) (reqs e) (reqs ne) \<and>
           compute (snapshot (snd (to W a target node_idx path mount force h)) ne) =
             (case node_idx of
                None \<Rightarrow> compute (snapshot h e)
              | Some k \<Rightarrow>
                  Some (dict_set (case compute (snapshot h e) of None \<Rightarrow> [] | Some m \<Rightarrow> m)
                          ''node_idx'' (PInt k))) \<and>
           (\<forall>d. compute ne = Some d \<longrightarrow> length h \<le> d)))"
proof -
  let ?r = "to W a target node_idx path mount force h"
  from to_frame [of h W a target node_idx path mount force]
  have t: "take (length h) (snd ?r) = h"
    and f: "case fst ?r of Inl err \<Rightarrow> True | Inr na \<Rightarrow> fresh_copy (length h) (snd ?r) na"
    by simp_all
  from assms have al: "a < length h" by (simp add: env_at_SomeD)
  from prefix_lookup [OF t al] assms have e: "env_at (snd ?r) a = Some e" by simp
  have s: "snapshot (snd ?r) e = snapshot h e"
  proof (cases "compute_bound h e")
    case True
    from snapshot_frame [OF t this] show ?thesis .
  next
    case False
    then obtain d where "compute e = Some d" "dict_at h d = None"
      by (auto simp: compute_bound_def split: option.splits)
    with assms have "deepcopy h a = Inl (Dangling d)" by (simp add: deepcopy_def)
    with assms have "snd ?r = h" by (simp add: to_def)
    then show ?thesis by simp
  qed
  have fresh: "a \<noteq> na \<and> (\<forall>d. compute ne = Some d \<longrightarrow> length h \<le> d)"
    if "fst ?r = Inr na" and "env_at (snd ?r) na = Some ne" for na ne
  proof -
    from f that(1) have "fresh_copy (length h) (snd ?r) na" by simp
    with that(2) have "length h \<le> na" "\<forall>d. compute ne = Some d \<longrightarrow> length h \<le> d"
      by (auto simp: fresh_copy_def)
    with al show ?thesis by simp
  qed
  have n: "\<forall>na. fst ?r = Inr na \<longrightarrow> a \<noteq> na \<and> env_at (snd ?r) na \<noteq> None"
  proof (intro allI impI)
    fix na assume "fst ?r = Inr na"
    with f have "fresh_copy (length h) (snd ?r) na" by simp
    then have "length h \<le> na" "env_at (snd ?r) na \<noteq> None"
      by (auto simp: fresh_copy_def split: option.splits)
    with al show "a \<noteq> na \<and> env_at (snd ?r) na \<noteq> None" by simp
  qed
  have str: "\<exists>na ne. fst ?r = Inr na \<and> a \<noteq> na \<and> env_at (snd ?r) na = Some ne \<and>
           name ne = name e \<and> setup_cmds ne = setup_cmds e \<and> env_vars ne = env_vars e \<and>
           p_reqs ne = Some rs \<and> working_dir ne = wd \<and> secrets ne = secrets e \<and>
           list_all2 (bound_to W (Sys_str n) path mount) (reqs e) (reqs ne) \<and>
           compute (snapshot (snd ?r) ne) = compute (snapshot h e) \<and>
           (\<forall>d. compute ne = Some d \<longrightarrow> length h \<le> d)"
    if wf: "compute_bound h e" and sys: "get_cluster_from W target = Sys_str n"
      and rq: "reqs_to W e (Sys_str n) path mount = Inr (rs, wd)"
  proof -
    from to_returns_copy_str [OF assms wf sys rq, where node_idx = node_idx and force = force] obtain na ne
      where r: "?r = (Inr na, snd ?r)" and ne: "env_at (snd ?r) na = Some ne"
        and sa: "same_attrs ne (e\<lparr>p_reqs := Some rs, working_dir := wd\<rparr>)"
        and sc: "compute (snapshot (snd ?r) ne) = compute (snapshot h e)" by blast
    from r have fr: "fst ?r = Inr na" by (metis fst_conv)
    from sa have fields: "name ne = name e" "setup_cmds ne = setup_cmds e"
      "env_vars ne = env_vars e" "p_reqs ne = Some rs" "working_dir ne = wd"
      "secrets ne = secrets e"
      by (simp_all add: same_attrs_def)
    from reqs_of_rebased [OF rq fields(4,5)]
    have "list_all2 (bound_to W (Sys_str n) path mount) (reqs e) (reqs ne)" .
    with fr ne fields sc fresh [OF fr ne] show ?thesis by blast
  qed
  have clu: "\<exists>na ne. fst ?r = Inr na \<and> a \<noteq> na \<and> env_at (snd ?r) na = Some ne \<and>
           name ne = name e \<and> setup_cmds ne = setup_cmds e \<and> env_vars ne = env_vars e \<and>
           p_reqs ne = Some rs \<and> working_dir ne = wd \<and> secrets ne = Some ss \<and>
           list_all2 (bound_to W (Sys_cluster c) path mount) (reqs e) (reqs ne) \<and>
           compute (snapshot (snd ?r) ne) =
             (case node_idx of
                None \<Rightarrow> compute (snapshot h e)
              | Some k \<Rightarrow>
                  Some (dict_set (case compute (snapshot h e) of None \<Rightarrow> [] | Some m \<Rightarrow> m)
                          ''node_idx'' (PInt k))) \<and>
           (\<forall>d. compute ne = Some d \<longrightarrow> length h \<le> d)"
    if wf: "compute_bound h e" and sys: "get_cluster_from W target = Sys_cluster c"
      and rq: "reqs_to W e (Sys_cluster c) path mount = Inr (rs, wd)"
      and idx: "\<forall>k. node_idx = Some k \<longrightarrow> k < int (length (ips c))"
      and put: "\<forall>e'. \<exists>key. put_resource W c e' = Inr key"
      and call: "\<forall>key rc. cluster_call W c key rc = Inr ()"
      and vars: "process_env_vars W (env_vars e) = Inr vs"
      and secs: "secrets_to W (snapshot h e) (Sys_cluster c) = Inr ss"
  proof -
    from idx have idx': "\<And>k. node_idx = Some k \<Longrightarrow> k < int (length (ips c))" by blast
    from put have put': "\<And>e'. \<exists>key. put_resource W c e' = Inr key" by blast
    from call have call': "\<And>key rc. cluster_call W c key rc = Inr ()" by blast
    from to_returns_copy_cluster [OF assms wf sys rq idx' put' call' vars secs, where force = force]
    obtain na ne
      where r: "?r = (Inr na, snd ?r)" and ne: "env_at (snd ?r) na = Some ne"
        and sa: "same_attrs ne (e\<lparr>p_reqs := Some rs, working_dir := wd, secrets := Some ss\<rparr>)"
        and sc: "compute (snapshot (snd ?r) ne) =
             (case node_idx of
                None \<Rightarrow> compute (snapshot h e)
              | Some k \<Rightarrow>
                  Some (dict_set (case compute (snapshot h e) of None \<Rightarrow> [] | Some m \<Rightarrow> m)
                          ''node_idx'' (PInt k)))" by blast
    from r have fr: "fst ?r = Inr na" by (metis fst_conv)
    from sa have fields: "name ne = name e" "setup_cmds ne = setup_cmds e"
      "env_vars ne = env_vars e" "p_reqs ne = Some rs" "working_dir ne = wd"
      "secrets ne = Some ss"
      by (simp_all add: same_attrs_def)
    from reqs_of_rebased [OF rq fields(4,5)]
    have "list_all2 (bound_to W (Sys_cluster c) path mount) (reqs e) (reqs ne)" .
    with fr ne fields sc fresh [OF fr ne] show ?thesis by blast
  qed
  from t e s n str clu show ?thesis by blast
qed

theorem to_copies_and_keeps_caller_witness:
  "env_at (snd (to uploading_world 1 (Sys_cluster two_nodes) None None False False project_store)) 1 =
     Some project_env \<and>
   snapshot (snd (to uploading_world 1 (Sys_cluster two_nodes) None None False False project_store))
     project_env = snapshot project_store project_env \<and>
   (\<exists>na ne.
      fst (to uploading_world 1 (Sys_cluster two_nodes) None None False False project_store) = Inr na \<and>
      1 \<noteq> na \<and>
      env_at (snd (to uploading_world 1 (Sys_cluster two_nodes) None None False False project_store))
        na = Some ne \<and>
      p_reqs ne = Some [RStr ''numpy''] \<and>
      working_dir ne =
        Some (RPkg \<lparr>install_target = Target_folder ''rh-cpu:./'', install_method = ''local''\<rparr>) \<and>
      secrets ne = Some [Secret_obj ''aws''] \<and>
      compute (snapshot (snd (to uploading_world 1 (Sys_cluster two_nodes) None None False False
        project_store)) ne) = Some [(''CPU'', PInt 2)]) \<and>
   (\<exists>na ne.
      fst (to uploading_world 1 (Sys_str ''s3'') None (Some ''bucket/env'') False False
        project_store) = Inr na \<and>
      1 \<noteq> na \<and>
      env_at (snd (to uploading_world 1 (Sys_str ''s3'') None (Some ''bucket/env'') False False
        project_store)) na = Some ne \<and>
      working_dir ne =
        Some (RPkg \<lparr>install_target = Target_folder ''s3:bucket/env'', install_method = ''local''\<rparr>) \<and>
      secrets ne = Some [Secret_name ''aws''])"
proof -
  note c = to_copies_and_keeps_caller [OF project_env_at, of uploading_world "Sys_cluster two_nodes"
      None None False False _ _ _ two_nodes "[]" "[Secret_obj ''aws'']"]
  note s = to_copies_and_keeps_caller [OF project_env_at, of uploading_world "Sys_str ''s3''"
      None "Some ''bucket/env''" False False "''s3''"]
  have sec: "secrets project_env = Some [Secret_name ''aws'']" by (simp add: project_env_def)
  from c project_compute_bound uploading_cluster project_reqs_to_cluster uploading_put
    uploading_call project_vars project_secrets project_snapshot_compute
  have a: "env_at (snd (to uploading_world 1 (Sys_cluster two_nodes) None None False False project_store)) 1 =
     Some project_env \<and>
   snapshot (snd (to uploading_world 1 (Sys_cluster two_nodes) None None False False project_store))
     project_env = snapshot project_store project_env \<and>
   (\<exists>na ne.
      fst (to uploading_world 1 (Sys_cluster two_nodes) None None False False project_store) = Inr na \<and>
      1 \<noteq> na \<and>
      env_at (snd (to uploading_world 1 (Sys_cluster two_nodes) None None False False project_store))
        na = Some ne \<and>
      p_reqs ne = Some [RStr ''numpy''] \<and>
      working_dir ne =
        Some (RPkg \<lparr>install_target = Target_folder ''rh-cpu:./'', install_method = ''local''\<rparr>) \<and>
      secrets ne = Some [Secret_obj ''aws''] \<and>
      compute (snapshot (snd (to uploading_world 1 (Sys_cluster two_nodes) None None False False
        project_store)) ne) = Some [(''CPU'', PInt 2)])"
    by (simp add: two_nodes_def) blast
  from s project_compute_bound uploading_str project_reqs_to_str sec
  have b: "\<exists>na ne.
      fst (to uploading_world 1 (Sys_str ''s3'') None (Some ''bucket/env'') False False
        project_store) = Inr na \<and>
      1 \<noteq> na \<and>
      env_at (snd (to uploading_world 1 (Sys_str ''s3'') None (Some ''bucket/env'') False False
        project_store)) na = Some ne \<and>
      working_dir ne =
        Some (RPkg \<lparr>install_target = Target_folder ''s3:bucket/env'', install_method = ''local''\<rparr>) \<and>
      secrets ne = Some [Secret_name ''aws'']"
    by simp blast
  from a b show ?thesis by blast
qed

subsection \<open>The node index\<close>

lemma dict_get_set_same: "dict_get (dict_set m k v) k = Some v"
  by (induction m k v rule: dict_set.induct) auto

lemma deepcopy_succeeds:
  assumes "env_at h a = Some e" and "compute_bound h e"
  shows "\<exists>na h1. deepcopy h a = Inr (na, h1)"
  using assms by (auto simp: deepcopy_def compute_bound_def split: option.splits)

lemma init_compute_succeeds:
  assumes "fresh_copy n h na"
  shows "\<exists>h1 ne d. init_compute na h = Inr h1 \<and> env_at h1 na = Some ne \<and> compute ne = Some d \<and>
           dict_at h1 d \<noteq> None"
proof -
  from assms obtain ne where ne: "env_at h na = Some ne"
    by (auto simp: fresh_copy_def split: option.splits)
  then have len: "na < length h" by (simp add: env_at_SomeD)
  show ?thesis
  proof (cases "compute ne")
    case None
    with ne len show ?thesis
      by (simp add: init_compute_def env_at_def dict_at_def nth_append)
  next
    case (Some d)
    with assms ne show ?thesis by (auto simp: init_compute_def fresh_copy_def)
  qed
qed

lemma compute_setitem_succeeds:
  assumes "env_at h na = Some ne" and "compute ne = Some d" and "dict_at h d = Some m"
  shows "compute_setitem na k v h = Inr (h[d := Obj_dict (dict_set m k v)]) \<and>
         compute_getitem (h[d := Obj_dict (dict_set m k v)]) na k = Some v"
proof -
  from assms(1,3) have "d \<noteq> na" by (auto dest!: env_at_SomeD dict_at_SomeD)
  from assms(3) have "d < length h" by (simp add: dict_at_SomeD)
  with assms \<open>d \<noteq> na\<close> show ?thesis
    by (simp add: compute_setitem_def compute_getitem_def snapshot_def env_at_update_other
        dict_at_update_same dict_get_set_same)
qed

lemma record_node_idx_succeeds:
  assumes "fresh_copy n h na" and "k < int (length (ips c))"
  shows "\<exists>h3. record_node_idx c k na h = Inr h3 \<and>
           compute_getitem h3 na ''node_idx'' = Some (PInt k)"
proof -
  from init_compute_succeeds [OF assms(1)] obtain h1 ne d m
    where "init_compute na h = Inr h1" "env_at h1 na = Some ne" "compute ne = Some d"
      "dict_at h1 d = Some m" by blast
  with compute_setitem_succeeds [of h1 na ne d m "''node_idx''" "PInt k"] assms(2)
  show ?thesis by (simp add: record_node_idx_def)
qed

lemma compute_getitem_set_attrs:
  assumes "fresh_copy n h na" and "env_at h na = Some ne" and "compute ne' = compute ne"
  shows "compute_getitem (h[na := Obj_env ne']) na k = compute_getitem h na k"
proof -
  from assms(2) have len: "na < length h" by (simp add: env_at_SomeD)
  show ?thesis
  proof (cases "compute ne")
    case None
    with assms len show ?thesis
      by (simp add: compute_getitem_def snapshot_def env_at_update_same)
  next
    case (Some d)
    with assms obtain m where "dict_at h d = Some m" by (auto simp: fresh_copy_def)
    with assms(2) have "d \<noteq> na" by (auto dest!: env_at_SomeD dict_at_SomeD)
    with Some assms len show ?thesis
      by (simp add: compute_getitem_def snapshot_def env_at_update_same dict_at_update_other)
  qed
qed

lemma cluster_setup_succeeds:
  assumes "fresh_copy n h na"
    and put: "\<And>e'. \<exists>key. put_resource W c e' = Inr key"
    and call: "\<And>key rc. cluster_call W c key rc = Inr ()"
    and vars: "process_env_vars W (env_vars e) = Inr vs"
    and secs: "secrets_to W (snapshot h e) (Sys_cluster c) = Inr ss"
  shows "\<exists>h4. cluster_setup W c e na force h = Inr h4 \<and>
           compute_getitem h4 na k = compute_getitem h na k"
proof -
  from assms(1) obtain ne where ne: "env_at h na = Some ne"
    by (auto simp: fresh_copy_def split: option.splits)
  obtain key where key: "put_resource W c (snapshot h ne) = Inr key" using put by blast
  have "compute (ne\<lparr>secrets := Some ss\<rparr>) = compute ne" by simp
  from compute_getitem_set_attrs [OF assms(1) ne this]
  have g: "compute_getitem (h[na := Obj_env (ne\<lparr>secrets := Some ss\<rparr>)]) na k = compute_getitem h na k" .
  have "cluster_setup W c e na force h = Inr (h[na := Obj_env (ne\<lparr>secrets := Some ss\<rparr>)])"
    using ne key call vars secs by (simp add: cluster_setup_def lift_def)
  with g show ?thesis by simp
qed

lemma to_records_node_idx:
  assumes self: "env_at h a = Some e"
    and wf: "compute_bound h e"
    and sys: "get_cluster_from W target = Sys_cluster c"
    and rq: "reqs_to W e (Sys_cluster c) path mount = Inr (rs, wd)"
    and k: "k < int (length (ips c))"
    and put: "\<And>e'. \<exists>key. put_resource W c e' = Inr key"
    and call: "\<And>key rc. cluster_call W c key rc = Inr ()"
    and vars: "process_env_vars W (env_vars e) = Inr vs"
    and secs: "secrets_to W (snapshot h e) (Sys_cluster c) = Inr ss"
  shows "\<exists>na. fst (to W a target (Some k) path mount force h) = Inr na \<and>
           compute_getitem (snd (to W a target (Some k) path mount force h)) na ''node_idx'' =
             Some (PInt k)"
proof -
  from deepcopy_succeeds [OF self wf] obtain na h1 where dc: "deepcopy h a = Inr (na, h1)" by blast
  from deepcopy_fresh [OF dc] have t1: "take (length h) h1 = h" and f1: "fresh_copy (length h) h1 na"
    by simp_all
  from f1 obtain ne where ne: "env_at h1 na = Some ne"
    by (auto simp: fresh_copy_def split: option.splits)
  let ?h2 = "h1[na := Obj_env (ne\<lparr>p_reqs := Some rs, working_dir := wd\<rparr>)]"
  have "compute (ne\<lparr>p_reqs := Some rs, working_dir := wd\<rparr>) = compute ne" by simp
  from set_attrs_fresh [OF f1 ne this]
  have t2: "take (length h) ?h2 = h" and f2: "fresh_copy (length h) ?h2 na"
    using t1 by simp_all
  from t1 have l2: "length h \<le> length ?h2" by (metis length_list_update length_take min.cobounded2 min.commute)
  from record_node_idx_succeeds [OF f2 k] obtain h3
    where r: "record_node_idx c k na ?h2 = Inr h3"
      and g3: "compute_getitem h3 na ''node_idx'' = Some (PInt k)" by blast
  from record_node_idx_fresh [OF f2 l2 r] t2
  have t3: "take (length h) h3 = h" and f3: "fresh_copy (length h) h3 na" by simp_all
  from snapshot_frame [OF t3 wf] secs
  have secs3: "secrets_to W (snapshot h3 e) (Sys_cluster c) = Inr ss" by simp
  from cluster_setup_succeeds [OF f3 put call vars secs3, of force "''node_idx''"] obtain h4
    where c4: "cluster_setup W c e na force h3 = Inr h4"
      and g4: "compute_getitem h4 na ''node_idx'' = compute_getitem h3 na ''node_idx''" by blast
  have "to W a target (Some k) path mount force h = (Inr na, h4)"
    using self dc sys rq ne r c4 by (simp add: to_def)
  with g3 g4 show ?thesis by simp
qed

lemma to_rejects_node_idx:
  assumes self: "env_at h a = Some e"
    and wf: "compute_bound h e"
    and sys: "get_cluster_from W target = Sys_cluster c"
    and rq: "reqs_to W e (Sys_cluster c) path mount = Inr (rs, wd)"
    and k: "int (length (ips c)) \<le> k"
  shows "fst (to W a target (Some k) path mount force h) =
           Inl (ValueError (''Cluster '' @ cluster_name c @ '' has only '' @
                  str_nat (length (ips c)) @ '' nodes. Requested node index '' @
                  str_int k @ '' is out of bounds.''))"
proof -
  from deepcopy_succeeds [OF self wf] obtain na h1 where dc: "deepcopy h a = Inr (na, h1)" by blast
  from deepcopy_fresh [OF dc] have f1: "fresh_copy (length h) h1 na" by simp
  then obtain ne where ne: "env_at h1 na = Some ne"
    by (auto simp: fresh_copy_def split: option.splits)
  show ?thesis using self dc sys rq ne k by (simp add: to_def record_node_idx_def)
qed

lemma rebase_reqs_no_value_error: "rebase_reqs W sys path mount rs \<noteq> Inl (ValueError msg)"
  by (induction rs) (auto simp: rebase_req_def split: sum.splits req.splits if_splits)

lemma send_secrets_no_value_error: "send_secrets W e sys ss \<noteq> Inl (ValueError msg)"
  by (induction ss) (auto simp: lift_def split: sum.splits secret.splits)

lemma cluster_setup_no_value_error: "cluster_setup W c e na force h \<noteq> Inl (ValueError msg)"
  using send_secrets_no_value_error [of W "snapshot h e" "Sys_cluster c" _ msg]
  by (auto simp: cluster_setup_def lift_def process_env_vars_def secrets_to_def
      split: option.splits sum.splits if_splits env_vars.splits)

lemma to_value_error_only_from_bound:
  assumes "fst (to W a target node_idx path mount force h) = Inl (ValueError msg)"
  shows "\<exists>k c. node_idx = Some k \<and> get_cluster_from W target = Sys_cluster c \<and>
           int (length (ips c)) \<le> k"
  using assms rebase_reqs_no_value_error [of W "get_cluster_from W target" path mount _ msg]
    cluster_setup_no_value_error [of W _ _ _ force _ msg]
  by (auto simp: to_def deepcopy_def reqs_to_def record_node_idx_def init_compute_def
      compute_setitem_def Let_def
      split: option.splits sum.splits if_splits prod.splits system.splits list.splits)

text \<open>
  C8. For a target that resolves to a cluster of \<open>n\<close> nodes, with the requirements rebased
  without an exception: \<open>to\<close> with \<open>node_idx = k\<close> raises \<open>ValueError\<close> when \<open>k \<ge> n\<close>; when
  \<open>0 \<le> k < n\<close>, and the cluster's \<open>put_resource\<close> and \<open>call\<close>, the environment variables
  and the secrets raise nothing, it returns the new environment, whose compute request
  has \<open>k\<close> under \<open>node_idx\<close>.
\<close>

theorem to_node_idx_bounds:
  assumes "env_at h a = Some e"
    and "compute_bound h e"
    and "get_cluster_from W target = Sys_cluster c"
    and "reqs_to W e (Sys_cluster c) path mount = Inr (rs, wd)"
  shows
    "(int (length (ips c)) \<le> k \<longrightarrow>
        fst (to W a target (Some k) path mount force h) =
          Inl (ValueError (''Cluster '' @ cluster_name c @ '' has only '' @
                 str_nat (length (ips c)) @ '' nodes. Requested node index '' @
                 str_int k @ '' is out of bounds.''))) \<and>
     (0 \<le> k \<and> k < int (length (ips c)) \<and>
      (\<forall>e'. \<exists>key. put_resource W c e' = Inr key) \<and>
      (\<forall>key rc. cluster_call W c key rc = Inr ()) \<and>
      (\<exists>vs. process_env_vars W (env_vars e) = Inr vs) \<and>
      (\<exists>ss. secrets_to W (snapshot h e) (Sys_cluster c) = Inr ss) \<longrightarrow>
        (\<exists>na. fst (to W a target (Some k) path mount force h) = Inr na \<and>
           compute_getitem (snd (to W a target (Some k) path mount force h)) na ''node_idx'' =
             Some (PInt k)))"
proof (intro conjI impI)
  assume "int (length (ips c)) \<le> k"
  from to_rejects_node_idx [OF assms this]
  show "fst (to W a target (Some k) path mount force h) =
          Inl (ValueError (''Cluster '' @ cluster_name c @ '' has only '' @
                 str_nat (length (ips c)) @ '' nodes. Requested node index '' @
                 str_int k @ '' is out of bounds.''))" .
next
  assume ok: "0 \<le> k \<and> k < int (length (ips c)) \<and>
      (\<forall>e'. \<exists>key. put_resource W c e' = Inr key) \<and>
      (\<forall>key rc. cluster_call W c key rc = Inr ()) \<and>
      (\<exists>vs. process_env_vars W (env_vars e) = Inr vs) \<and>
      (\<exists>ss. secrets_to W (snapshot h e) (Sys_cluster c) = Inr ss)"
  then obtain vs ss where k: "k < int (length (ips c))"
    and put: "\<And>e'. \<exists>key. put_resource W c e' = Inr key"
    and call: "\<And>key rc. cluster_call W c key rc = Inr ()"
    and vars: "process_env_vars W (env_vars e) = Inr vs"
    and secs: "secrets_to W (snapshot h e) (Sys_cluster c) = Inr ss"
    by blast
  from to_records_node_idx [OF assms k put call vars secs]
  show "\<exists>na. fst (to W a target (Some k) path mount force h) = Inr na \<and>
           compute_getitem (snd (to W a target (Some k) path mount force h)) na ''node_idx'' =
             Some (PInt k)" .
qed

theorem to_node_idx_bounds_witness:
  "fst (to plain_world 1 (Sys_cluster two_nodes) (Some 2) None False False client_store) =
     Inl (ValueError ''Cluster rh-cpu has only 2 nodes. Requested node index 2 is out of bounds.'') \<and>
   (\<exists>na. fst (to plain_world 1 (Sys_cluster two_nodes) (Some 1) None False False client_store) = Inr na \<and>
      compute_getitem (snd (to plain_world 1 (Sys_cluster two_nodes) (Some 1) None False False
        client_store)) na ''node_idx'' = Some (PInt 1))"
proof -
  note t = to_node_idx_bounds [OF client_env_at client_compute_bound client_cluster client_reqs_to]
  have "length (ips two_nodes) = 2" "cluster_name two_nodes = ''rh-cpu''"
    by (simp_all add: two_nodes_def)
  with t [of 2 False] have a:
    "fst (to plain_world 1 (Sys_cluster two_nodes) (Some 2) None False False client_store) =
     Inl (ValueError ''Cluster rh-cpu has only 2 nodes. Requested node index 2 is out of bounds.'')"
    by (simp add: str_two)
  from t [of 1 False] plain_put plain_call client_vars client_secrets two_nodes_length
  have "\<exists>na. fst (to plain_world 1 (Sys_cluster two_nodes) (Some 1) None False False client_store) = Inr na \<and>
      compute_getitem (snd (to plain_world 1 (Sys_cluster two_nodes) (Some 1) None False False
        client_store)) na ''node_idx'' = Some (PInt 1)"
    by simp
  with a show ?thesis by simp
qed

text \<open>
  C9. With a negative \<open>node_idx\<close>, \<open>to\<close> never raises \<open>ValueError\<close>, the exception of the
  bound check: only \<open>node_idx >= len(system.ips)\<close> is tested. When the collaborators raise
  nothing, it returns the new environment, whose compute request has the negative value
  under \<open>node_idx\<close>.
\<close>

theorem to_negative_node_idx:
  assumes "k < 0"
  shows
    "(\<forall>msg. fst (to W a target (Some k) path mount force h) \<noteq> Inl (ValueError msg)) \<and>
     (env_at h a = Some e \<and> compute_bound h e \<and>
      get_cluster_from W target = Sys_cluster c \<and>
      (\<exists>rs wd. reqs_to W e (Sys_cluster c) path mount = Inr (rs, wd)) \<and>
      (\<forall>e'. \<exists>key. put_resource W c e' = Inr key) \<and>
      (\<forall>key rc. cluster_call W c key rc = Inr ()) \<and>
      (\<exists>vs. process_env_vars W (env_vars e) = Inr vs) \<and>
      (\<exists>ss. secrets_to W (snapshot h e) (Sys_cluster c) = Inr ss) \<longrightarrow>
        (\<exists>na. fst (to W a target (Some k) path mount force h) = Inr na \<and>
           compute_getitem (snd (to W a target (Some k) path mount force h)) na ''node_idx'' =
             Some (PInt k)))"
proof (intro conjI impI allI)
  fix msg
  show "fst (to W a target (Some k) path mount force h) \<noteq> Inl (ValueError msg)"
  proof
    assume "fst (to W a target (Some k) path mount force h) = Inl (ValueError msg)"
    from to_value_error_only_from_bound [OF this] obtain c' :: cluster
      where "int (length (ips c')) \<le> k"
      by auto
    with assms show False by simp
  qed
next
  assume ok: "env_at h a = Some e \<and> compute_bound h e \<and>
      get_cluster_from W target = Sys_cluster c \<and>
      (\<exists>rs wd. reqs_to W e (Sys_cluster c) path mount = Inr (rs, wd)) \<and>
      (\<forall>e'. \<exists>key. put_resource W c e' = Inr key) \<and>
      (\<forall>key rc. cluster_call W c key rc = Inr ()) \<and>
      (\<exists>vs. process_env_vars W (env_vars e) = Inr vs) \<and>
      (\<exists>ss. secrets_to W (snapshot h e) (Sys_cluster c) = Inr ss)"
  then obtain rs wd vs ss where self: "env_at h a = Some e" and wf: "compute_bound h e"
    and sys: "get_cluster_from W target = Sys_cluster c"
    and rq: "reqs_to W e (Sys_cluster c) path mount = Inr (rs, wd)"
    and put: "\<And>e'. \<exists>key. put_resource W c e' = Inr key"
    and call: "\<And>key rc. cluster_call W c key rc = Inr ()"
    and vars: "process_env_vars W (env_vars e) = Inr vs"
    and secs: "secrets_to W (snapshot h e) (Sys_cluster c) = Inr ss"
    by blast
  from assms have k: "k < int (length (ips c))" by simp
  from to_records_node_idx [OF self wf sys rq k put call vars secs]
  show "\<exists>na. fst (to W a target (Some k) path mount force h) = Inr na \<and>
           compute_getitem (snd (to W a target (Some k) path mount force h)) na ''node_idx'' =
             Some (PInt k)" .
qed

theorem to_negative_node_idx_witness:
  "(\<exists>na. fst (to plain_world 1 (Sys_cluster two_nodes) (Some (- 1)) None False False client_store) = Inr na \<and>
      compute_getitem (snd (to plain_world 1 (Sys_cluster two_nodes) (Some (- 1)) None False False
        client_store)) na ''node_idx'' = Some (PInt (- 1)))"
proof -
  have neg: "(- 1 :: int) < 0" by simp
  have rq: "\<exists>rs wd. reqs_to plain_world client_env (Sys_cluster two_nodes) None False = Inr (rs, wd)"
    using client_reqs_to by blast
  from to_negative_node_idx [OF neg, of plain_world 1 "Sys_cluster two_nodes" None False False
      client_store client_env two_nodes]
    client_env_at client_compute_bound client_cluster rq plain_put plain_call client_vars
    client_secrets
  show ?thesis by blast
qed

end
